theory Spec2Isabelle
  imports Complex_Main
begin

section \<open>Data model of the transport planner schema\<close>

text \<open>
  The program is the SQL schema and the PL/pgSQL functions of
  \<^verbatim>\<open>supabase/migrations/20250711105343_golden_brook.sql\<close>.
  A table is a list of rows (a record per table), the database is a record of tables,
  and an SQL function is a function from the database to the database, or to an error
  where a constraint of the schema can make its statement fail.

  Conventions of the embedding:
  \<^item> a \<^verbatim>\<open>UUID\<close> is a natural number; \<^verbatim>\<open>uuid_generate_v4()\<close> draws the next
    value of the counter \<open>next_uuid\<close> of the database, so a generated key is fresh;
  \<^item> a \<^verbatim>\<open>DATE\<close> is the number of days since 1970-01-01, a \<^verbatim>\<open>TIMESTAMPTZ\<close>
    the number of seconds since 1970-01-01 00:00 UTC, a \<^verbatim>\<open>TIME\<close> the number of
    seconds since midnight; the session time zone is UTC;
  \<^item> a nullable column has an \<open>option\<close> type, \<open>None\<close> being SQL \<^verbatim>\<open>NULL\<close>; a
    comparison with \<^verbatim>\<open>NULL\<close> is not true, so a \<^verbatim>\<open>WHERE\<close> clause
    \<^verbatim>\<open>is_deleted = FALSE\<close> is \<open>is_deleted = Some False\<close>;
  \<^item> \<^verbatim>\<open>TEXT\<close> is \<open>string\<close>; the status columns keep their text values;
  \<^item> the fields of a row carry the table's initials, since all record fields of a
    theory share one name space (\<open>si_id\<close> is \<^verbatim>\<open>schedule_instances.id\<close>);
  \<^item> columns that no function or view of the migration reads or writes (notes, phone
    numbers, the human-readable code columns of the offer and responsibility tables,
    \<^verbatim>\<open>updated_at\<close>) are left out of the rows, and so of the JSON image of a row in the
    audit; no statement of the migration changes them after the insert.
\<close>

type_synonym uuid = nat
type_synonym date = int
type_synonym timestamptz = int
type_synonym time_of_day = nat

record driver =
  d_id :: uuid
  d_driver_code :: string
  d_name :: string

record vehicle =
  v_id :: uuid
  v_vehicle_code :: string
  v_plate_number :: string

record customer =
  c_id :: uuid
  c_name :: string

record user =
  u_id :: uuid
  u_name :: string

record route =
  r_id :: uuid
  r_route_code :: string
  r_name :: string
  r_region :: "string option"
  r_customer_id :: "uuid option"

record route_schedule =
  rs_id :: uuid
  rs_route_id :: uuid
  rs_days_of_week :: "int list option"
  rs_start_date :: date
  rs_end_date :: "date option"
  rs_standby_time :: "time_of_day option"
  rs_departure_time :: "time_of_day option"
  rs_default_driver_id :: "uuid option"
  rs_default_vehicle_id :: "uuid option"
  rs_owner_user_id :: "uuid option"
  rs_helper_user_id :: "uuid option"
  rs_status :: string
  rs_created_at :: "timestamptz option"

record schedule_instance =
  si_id :: uuid
  si_route_schedule_id :: uuid
  si_schedule_date :: date
  si_driver_id :: "uuid option"
  si_vehicle_id :: "uuid option"
  si_standby_date :: "date option"
  si_standby_time :: "time_of_day option"
  si_departure_date :: "date option"
  si_departure_time :: "time_of_day option"
  si_status :: string
  si_is_override :: "bool option"
  si_is_deleted :: "bool option"

record route_responsibility_row =
  rr_id :: uuid
  rr_route_id :: uuid
  rr_user_id :: uuid
  rr_role :: string
  rr_assigned_at :: "timestamptz option"
  rr_assigned_by :: "uuid option"
  rr_is_active :: "bool option"
  rr_created_at :: "timestamptz option"

record support_offer_row =
  so_id :: uuid
  so_route_schedule_id :: "uuid option"
  so_schedule_instance_id :: "uuid option"
  so_from_user_id :: uuid
  so_to_user_id :: "uuid option"
  so_proposed_driver_id :: "uuid option"
  so_proposed_vehicle_id :: "uuid option"
  so_offer_type :: string
  so_message :: "string option"
  so_priority :: string
  so_status :: string
  so_expires_at :: "timestamptz option"
  so_responded_at :: "timestamptz option"
  so_response_message :: "string option"
  so_created_at :: "timestamptz option"

record route_alert =
  ra_id :: uuid
  ra_route_schedule_id :: "uuid option"
  ra_schedule_instance_id :: "uuid option"
  ra_alert_type :: string
  ra_title :: string
  ra_message :: "string option"
  ra_severity :: string
  ra_is_read :: "bool option"
  ra_read_at :: "timestamptz option"
  ra_created_for_user :: "uuid option"
  ra_created_at :: "timestamptz option"

record conflict_check =
  cc_id :: uuid
  cc_check_date :: date
  cc_driver_id :: "uuid option"
  cc_vehicle_id :: "uuid option"
  cc_conflicting_schedules :: "uuid list"
  cc_conflict_type :: string
  cc_severity :: string
  cc_status :: string
  cc_resolution_notes :: "string option"
  cc_created_at :: "timestamptz option"
  cc_resolved_at :: "timestamptz option"

text \<open>
  \<^verbatim>\<open>to_jsonb(row)\<close> is the list of the row's columns with their values as text, a JSON
  null being \<open>None\<close>.
\<close>

type_synonym jsonb = "(string \<times> string option) list"

record audit_log =
  al_id :: uuid
  al_table_name :: string
  al_record_id :: string
  al_operation :: string
  al_old_values :: "jsonb option"
  al_new_values :: "jsonb option"
  al_changed_fields :: "string list option"
  al_user_id :: "uuid option"
  al_user_email :: "string option"
  al_ip_address :: "string option"
  al_user_agent :: "string option"
  al_created_at :: "timestamptz option"

record db =
  drivers :: "driver list"
  vehicles :: "vehicle list"
  customers :: "customer list"
  users :: "user list"
  routes :: "route list"
  route_schedules :: "route_schedule list"
  schedule_instances :: "schedule_instance list"
  route_responsibility :: "route_responsibility_row list"
  support_offer :: "support_offer_row list"
  route_alerts :: "route_alert list"
  conflict_checks :: "conflict_check list"
  audit_logs :: "audit_log list"
  next_uuid :: nat

section \<open>Dates\<close>

text \<open>\<^verbatim>\<open>CURRENT_DATE\<close> and \<^verbatim>\<open>DATE(ts)\<close>: the day of a timestamp.\<close>

definition DATE :: "timestamptz \<Rightarrow> date" where
  "DATE ts = ts div 86400"

definition CURRENT_DATE :: "timestamptz \<Rightarrow> date" where
  "CURRENT_DATE now = DATE now"

section \<open>Inserting rows with generated keys\<close>

text \<open>
  An \<^verbatim>\<open>INSERT ... SELECT\<close> gives every selected row its own
  \<^verbatim>\<open>uuid_generate_v4()\<close>: the rows are numbered from the counter on.
\<close>

fun number_rows :: "nat \<Rightarrow> (uuid \<Rightarrow> 'a) list \<Rightarrow> 'a list" where
  "number_rows n [] = []"
| "number_rows n (mk # mks) = mk n # number_rows (Suc n) mks"

section \<open>Conflict detection: \<^verbatim>\<open>detect_schedule_conflicts()\<close>\<close>

text \<open>
  \<^verbatim>\<open>GROUP BY\<close>: the distinct keys of the selected rows, here in the order of their
  first row (SQL leaves the order of the groups and of \<^verbatim>\<open>array_agg\<close> open; the model
  takes the order of the table).
\<close>

fun group_keys :: "'k list \<Rightarrow> 'k list" where
  "group_keys [] = []"
| "group_keys (k # ks) = k # filter (\<lambda>x. x \<noteq> k) (group_keys ks)"

definition not_null :: "'a option list \<Rightarrow> 'a list" where
  "not_null xs = concat (map (\<lambda>x. case x of None \<Rightarrow> [] | Some v \<Rightarrow> [v]) xs)"

text \<open>
  The \<^verbatim>\<open>WHERE\<close> clause both queries share:
  \<^verbatim>\<open>schedule_date = CURRENT_DATE AND status IN ('Scheduled', 'Confirmed') AND is_deleted = FALSE\<close>.
\<close>

definition bookable :: "date \<Rightarrow> schedule_instance \<Rightarrow> bool" where
  "bookable today si \<longleftrightarrow>
     si_schedule_date si = today
     \<and> (si_status si = ''Scheduled'' \<or> si_status si = ''Confirmed'')
     \<and> si_is_deleted si = Some False"

text \<open>
  The groups of one query, for the resource column \<open>res\<close> (\<^verbatim>\<open>driver_id\<close> or
  \<^verbatim>\<open>vehicle_id\<close>): \<^verbatim>\<open>WHERE ... AND res IS NOT NULL GROUP BY res, schedule_date
  HAVING COUNT(*) > 1\<close>, each with the rows of the group.
\<close>

definition overlap_groups ::
  "(schedule_instance \<Rightarrow> uuid option) \<Rightarrow> date \<Rightarrow> schedule_instance list
     \<Rightarrow> (uuid \<times> schedule_instance list) list" where
  "overlap_groups res today sis =
     (let rows = [si \<leftarrow> sis. bookable today si \<and> res si \<noteq> None]
      in [(k, [si \<leftarrow> rows. res si = Some k]).
            k \<leftarrow> group_keys (not_null (map res rows)),
            1 < length [si \<leftarrow> rows. res si = Some k]])"

definition overlap_severity :: "nat \<Rightarrow> string" where
  "overlap_severity n = (if 2 < n then ''High'' else ''Medium'')"

definition driver_overlap_row ::
  "timestamptz \<Rightarrow> uuid \<times> schedule_instance list \<Rightarrow> uuid \<Rightarrow> conflict_check" where
  "driver_overlap_row now g new_id =
     \<lparr> cc_id = new_id,
       cc_check_date = CURRENT_DATE now,
       cc_driver_id = Some (fst g),
       cc_vehicle_id = None,
       cc_conflicting_schedules = map si_id (snd g),
       cc_conflict_type = ''Driver Overlap'',
       cc_severity = overlap_severity (length (snd g)),
       cc_status = ''Open'',
       cc_resolution_notes = None,
       cc_created_at = Some now,
       cc_resolved_at = None \<rparr>"

definition vehicle_overlap_row ::
  "timestamptz \<Rightarrow> uuid \<times> schedule_instance list \<Rightarrow> uuid \<Rightarrow> conflict_check" where
  "vehicle_overlap_row now g new_id =
     \<lparr> cc_id = new_id,
       cc_check_date = CURRENT_DATE now,
       cc_driver_id = None,
       cc_vehicle_id = Some (fst g),
       cc_conflicting_schedules = map si_id (snd g),
       cc_conflict_type = ''Vehicle Overlap'',
       cc_severity = overlap_severity (length (snd g)),
       cc_status = ''Open'',
       cc_resolution_notes = None,
       cc_created_at = Some now,
       cc_resolved_at = None \<rparr>"

definition insert_conflict_checks :: "(uuid \<Rightarrow> conflict_check) list \<Rightarrow> db \<Rightarrow> db" where
  "insert_conflict_checks mks s =
     s\<lparr> conflict_checks := conflict_checks s @ number_rows (next_uuid s) mks,
        next_uuid := next_uuid s + length mks \<rparr>"

text \<open>
  The function has no parameter: the date it works on is \<^verbatim>\<open>CURRENT_DATE\<close>, which the
  model reads from the clock \<open>now\<close> of the transaction. Both queries read
  \<^verbatim>\<open>schedule_instances\<close>.
\<close>

definition detect_schedule_conflicts :: "timestamptz \<Rightarrow> db \<Rightarrow> db" where
  "detect_schedule_conflicts now s =
     (let today = CURRENT_DATE now;
          s1 = s\<lparr> conflict_checks := [c \<leftarrow> conflict_checks s. cc_check_date c \<noteq> today] \<rparr>;
          s2 = insert_conflict_checks
                 (map (driver_overlap_row now) (overlap_groups si_driver_id today (schedule_instances s1))) s1;
          s3 = insert_conflict_checks
                 (map (vehicle_overlap_row now) (overlap_groups si_vehicle_id today (schedule_instances s2))) s2
      in s3)"

section \<open>The calendar\<close>

text \<open>
  The migration leaves the calendar to PostgreSQL: \<^verbatim>\<open>EXTRACT(DOW FROM d)\<close>,
  \<^verbatim>\<open>d + INTERVAL '1 year'\<close> and the text of a date. They are modelled on the
  day number, with the proleptic Gregorian calendar.

  \<^verbatim>\<open>EXTRACT(DOW ...)\<close> counts the days of the week from Sunday: Sunday is 0, Monday 1, up to
  Saturday 6. Day 0, 1970-01-01, was a Thursday.
\<close>

definition DOW :: "date \<Rightarrow> int" where
  "DOW d = (d + 4) mod 7"

text \<open>The day number of a civil date, and back (years counted from March, in eras of 400 years).\<close>

definition days_from_civil :: "int \<Rightarrow> int \<Rightarrow> int \<Rightarrow> date" where
  "days_from_civil y m d =
     (let y' = (if m \<le> 2 then y - 1 else y);
          era = y' div 400;
          yoe = y' - era * 400;
          doy = (153 * (if 2 < m then m - 3 else m + 9) + 2) div 5 + d - 1;
          doe = yoe * 365 + yoe div 4 - yoe div 100 + doy
      in era * 146097 + doe - 719468)"

definition civil_from_days :: "date \<Rightarrow> int \<times> int \<times> int" where
  "civil_from_days z =
     (let z' = z + 719468;
          era = z' div 146097;
          doe = z' - era * 146097;
          yoe = (doe - doe div 1460 + doe div 36524 - doe div 146096) div 365;
          doy = doe - (365 * yoe + yoe div 4 - yoe div 100);
          mp = (5 * doy + 2) div 153;
          d = doy - (153 * mp + 2) div 5 + 1;
          m = (if mp < 10 then mp + 3 else mp - 9);
          y = yoe + era * 400
      in (if m \<le> 2 then y + 1 else y, m, d))"

definition leap_year :: "int \<Rightarrow> bool" where
  "leap_year y \<longleftrightarrow> y mod 4 = 0 \<and> (y mod 100 \<noteq> 0 \<or> y mod 400 = 0)"

definition days_in_month :: "int \<Rightarrow> int \<Rightarrow> int" where
  "days_in_month y m =
     (if m = 2 then (if leap_year y then 29 else 28)
      else if m = 4 \<or> m = 6 \<or> m = 9 \<or> m = 11 then 30 else 31)"

text \<open>
  \<^verbatim>\<open>d + INTERVAL '1 year'\<close>: the same month and day of the next year, the day cut to
  the length of the month (29 February gives 28 February).
\<close>

definition plus_one_year :: "date \<Rightarrow> date" where
  "plus_one_year z =
     (case civil_from_days z of
        (y, m, d) \<Rightarrow> days_from_civil (y + 1) m (min d (days_in_month (y + 1) m)))"

text \<open>
  \<^verbatim>\<open>generate_series(start, stop, '1 day')\<close>: every day from \<open>start\<close> to \<open>stop\<close>, both
  included; empty when \<open>stop\<close> is before \<open>start\<close>.
\<close>

definition generate_series :: "date \<Rightarrow> date \<Rightarrow> date list" where
  "generate_series start stop = [start..stop]"

text \<open>The text of a date, \<^verbatim>\<open>YYYY-MM-DD\<close> (years 0001 to 9999).\<close>

definition digit :: "int \<Rightarrow> char" where
  "digit n = ''0123456789'' ! nat (n mod 10)"

definition date_text :: "date \<Rightarrow> string" where
  "date_text z =
     (case civil_from_days z of
        (y, m, d) \<Rightarrow>
          [digit (y div 1000), digit (y div 100), digit (y div 10), digit y] @ ''-''
          @ [digit (m div 10), digit m] @ ''-'' @ [digit (d div 10), digit d])"

section \<open>The materialized view \<^verbatim>\<open>schedule_overview\<close>\<close>

record overview_row =
  ov_schedule_id :: uuid
  ov_route_code :: string
  ov_route_name :: string
  ov_region :: "string option"
  ov_schedule_date :: date
  ov_standby_time :: "time_of_day option"
  ov_departure_time :: "time_of_day option"
  ov_standby_date :: date
  ov_departure_date :: date
  ov_driver_code :: "string option"
  ov_driver_name :: "string option"
  ov_vehicle_code :: "string option"
  ov_plate_number :: "string option"
  ov_status :: string
  ov_created_at :: "timestamptz option"
  ov_customer_name :: "string option"
  ov_has_override :: bool
  ov_is_override :: "bool option"
  ov_is_deleted :: "bool option"
  ov_owner_user_name :: "string option"
  ov_helper_user_name :: "string option"

text \<open>\<^verbatim>\<open>COALESCE(a, b)\<close> with a nullable and with a non-null second argument.\<close>

definition COALESCE :: "'a option \<Rightarrow> 'a option \<Rightarrow> 'a option" where
  "COALESCE a b = (case a of Some x \<Rightarrow> Some x | None \<Rightarrow> b)"

definition COALESCE_value :: "'a option \<Rightarrow> 'a \<Rightarrow> 'a" where
  "COALESCE_value a b = (case a of Some x \<Rightarrow> x | None \<Rightarrow> b)"

text \<open>
  \<^verbatim>\<open>LEFT JOIN\<close>: the matching rows of the right table, or one all-null row (\<open>None\<close>) when
  there is none. A column of a left-joined row is null when the row is.
\<close>

definition left_join :: "'a list \<Rightarrow> 'a option list" where
  "left_join ms = (if ms = [] then [None] else map Some ms)"

definition col :: "'a option \<Rightarrow> ('a \<Rightarrow> 'b) \<Rightarrow> 'b option" where
  "col row f = map_option f row"

definition ncol :: "'a option \<Rightarrow> ('a \<Rightarrow> 'b option) \<Rightarrow> 'b option" where
  "ncol row f = Option.bind row f"

text \<open>The select list of the view, for one row of the join.\<close>

definition overview_select ::
  "route_schedule \<Rightarrow> route \<Rightarrow> customer option \<Rightarrow> driver option \<Rightarrow> vehicle option
     \<Rightarrow> user option \<Rightarrow> user option \<Rightarrow> date \<Rightarrow> schedule_instance option
     \<Rightarrow> driver option \<Rightarrow> vehicle option \<Rightarrow> overview_row" where
  "overview_select rs r c d_default v_default u_owner u_helper schedule_date si d_override v_override =
     \<lparr> ov_schedule_id = rs_id rs,
       ov_route_code = r_route_code r,
       ov_route_name = r_name r,
       ov_region = r_region r,
       ov_schedule_date = schedule_date,
       ov_standby_time = COALESCE (ncol si si_standby_time) (rs_standby_time rs),
       ov_departure_time = COALESCE (ncol si si_departure_time) (rs_departure_time rs),
       ov_standby_date = COALESCE_value (ncol si si_standby_date) schedule_date,
       ov_departure_date = COALESCE_value (ncol si si_departure_date) schedule_date,
       ov_driver_code = COALESCE (col d_override d_driver_code) (col d_default d_driver_code),
       ov_driver_name = COALESCE (col d_override d_name) (col d_default d_name),
       ov_vehicle_code = COALESCE (col v_override v_vehicle_code) (col v_default v_vehicle_code),
       ov_plate_number = COALESCE (col v_override v_plate_number) (col v_default v_plate_number),
       ov_status = COALESCE_value (col si si_status) (rs_status rs),
       ov_created_at = rs_created_at rs,
       ov_customer_name = col c c_name,
       ov_has_override = (si \<noteq> None),
       ov_is_override = ncol si si_is_override,
       ov_is_deleted = ncol si si_is_deleted,
       ov_owner_user_name = col u_owner u_name,
       ov_helper_user_name = col u_helper u_name \<rparr>"

text \<open>
  The weekdays of the rule:
  \<^verbatim>\<open>CASE WHEN rs.days_of_week IS NULL THEN ARRAY[1,2,3,4,5,6,7] ELSE rs.days_of_week END\<close>.
  The column comment of \<^verbatim>\<open>days_of_week\<close> reads \<^verbatim>\<open>1=Monday, 7=Sunday\<close>.
\<close>

definition rule_days :: "route_schedule \<Rightarrow> int list" where
  "rule_days rs = (case rs_days_of_week rs of None \<Rightarrow> [1, 2, 3, 4, 5, 6, 7] | Some ds \<Rightarrow> ds)"

text \<open>
  The series of a template:
  \<^verbatim>\<open>generate_series(rs.start_date, COALESCE(rs.end_date, rs.start_date + INTERVAL '1 year'), '1 day')\<close>.
\<close>

definition template_days :: "route_schedule \<Rightarrow> date list" where
  "template_days rs =
     generate_series (rs_start_date rs)
       (COALESCE_value (rs_end_date rs) (plus_one_year (rs_start_date rs)))"

text \<open>
  The view: the joins in the order of the \<^verbatim>\<open>FROM\<close> clause, then the three conditions
  of the \<^verbatim>\<open>WHERE\<close> clause. In the join condition and the select list the unqualified
  \<^verbatim>\<open>schedule_date\<close> is the day of the series.
\<close>

definition schedule_overview :: "db \<Rightarrow> overview_row list" where
  "schedule_overview s =
     [overview_select rs r c d_default v_default u_owner u_helper schedule_date si d_override v_override.
        rs \<leftarrow> route_schedules s,
        r \<leftarrow> [r \<leftarrow> routes s. rs_route_id rs = r_id r],
        c \<leftarrow> left_join [c \<leftarrow> customers s. r_customer_id r = Some (c_id c)],
        d_default \<leftarrow> left_join [d \<leftarrow> drivers s. rs_default_driver_id rs = Some (d_id d)],
        v_default \<leftarrow> left_join [v \<leftarrow> vehicles s. rs_default_vehicle_id rs = Some (v_id v)],
        u_owner \<leftarrow> left_join [u \<leftarrow> users s. rs_owner_user_id rs = Some (u_id u)],
        u_helper \<leftarrow> left_join [u \<leftarrow> users s. rs_helper_user_id rs = Some (u_id u)],
        schedule_date \<leftarrow> template_days rs,
        si \<leftarrow> left_join [si \<leftarrow> schedule_instances s.
                 si_route_schedule_id si = rs_id rs \<and> si_schedule_date si = schedule_date
                 \<and> si_is_deleted si = Some False],
        d_override \<leftarrow> left_join [d \<leftarrow> drivers s. ncol si si_driver_id = Some (d_id d)],
        v_override \<leftarrow> left_join [v \<leftarrow> vehicles s. ncol si si_vehicle_id = Some (v_id v)],
        rs_status rs = ''Confirmed'' \<or> rs_status rs = ''Changed'',
        ncol si si_is_deleted = Some False \<or> ncol si si_is_deleted = None,
        DOW schedule_date \<in> set (rule_days rs)]"

text \<open>
  A driver code is the code of a driver with the key \<open>k\<close>: what a join of \<^verbatim>\<open>drivers\<close>
  on a driver column gives when a row matches.
\<close>

definition driver_code_of :: "db \<Rightarrow> uuid option \<Rightarrow> string option \<Rightarrow> bool" where
  "driver_code_of s k code \<longleftrightarrow>
     (\<exists>d \<in> set (drivers s). k = Some (d_id d) \<and> code = Some (d_driver_code d))"

section \<open>Conflict records\<close>

text \<open>
  The content of a conflict record: the date, the resource, the referenced instances, the
  type, the severity and the resolution status. The generated key and the time stamps of
  the row are not part of it.
\<close>

type_synonym ConflictRecord =
  "date \<times> uuid option \<times> uuid option \<times> uuid list \<times> string \<times> string \<times> string"

definition conflict_record :: "conflict_check \<Rightarrow> ConflictRecord" where
  "conflict_record c =
     (cc_check_date c, cc_driver_id c, cc_vehicle_id c, cc_conflicting_schedules c,
      cc_conflict_type c, cc_severity c, cc_status c)"

section \<open>Cross-day alerts: \<^verbatim>\<open>detect_cross_day_conflict()\<close>\<close>

text \<open>
  \<^verbatim>\<open>a != b\<close> on nullable columns is true only when both are set and differ; with a null
  operand it is null, and the row is not selected.
\<close>

definition sql_neq :: "'a option \<Rightarrow> 'a option \<Rightarrow> bool" where
  "sql_neq a b = (case a of None \<Rightarrow> False | Some x \<Rightarrow> (case b of None \<Rightarrow> False | Some y \<Rightarrow> x \<noteq> y))"

text \<open>\<^verbatim>\<open>DATE(created_at) = day\<close> on the nullable \<^verbatim>\<open>created_at\<close>.\<close>

definition created_on :: "date \<Rightarrow> route_alert \<Rightarrow> bool" where
  "created_on day a = (case ra_created_at a of None \<Rightarrow> False | Some t \<Rightarrow> DATE t = day)"

definition insert_route_alerts :: "(uuid \<Rightarrow> route_alert) list \<Rightarrow> db \<Rightarrow> db" where
  "insert_route_alerts mks s =
     s\<lparr> route_alerts := route_alerts s @ number_rows (next_uuid s) mks,
        next_uuid := next_uuid s + length mks \<rparr>"

text \<open>
  The rows of the \<^verbatim>\<open>FROM ... JOIN ... WHERE\<close> part of the insert: an instance of the date,
  joined with its template and the template's route.
\<close>

definition cross_day_rows :: "date \<Rightarrow> db \<Rightarrow> (schedule_instance \<times> route_schedule \<times> route) list" where
  "cross_day_rows today s =
     [(si, rs, r).
        si \<leftarrow> schedule_instances s,
        rs \<leftarrow> [rs \<leftarrow> route_schedules s. si_route_schedule_id si = rs_id rs],
        r \<leftarrow> [r \<leftarrow> routes s. rs_route_id rs = r_id r],
        si_schedule_date si = today
        \<and> sql_neq (si_standby_date si) (si_departure_date si)
        \<and> si_is_deleted si = Some False]"

text \<open>
  The select list. The message is a concatenation with \<^verbatim>\<open>||\<close>; both dates are set in a
  selected row. The other columns of the alert take their defaults.
\<close>

definition cross_day_alert ::
  "timestamptz \<Rightarrow> schedule_instance \<times> route_schedule \<times> route \<Rightarrow> uuid \<Rightarrow> route_alert" where
  "cross_day_alert now row new_id =
     (case row of (si, rs, r) \<Rightarrow>
       \<lparr> ra_id = new_id,
         ra_route_schedule_id = None,
         ra_schedule_instance_id = Some (si_id si),
         ra_alert_type = ''TimeCrossDay'',
         ra_title = ''Cross-Day Schedule Detected'',
         ra_message =
           (case si_standby_date si of None \<Rightarrow> None | Some a \<Rightarrow>
              (case si_departure_date si of None \<Rightarrow> None | Some b \<Rightarrow>
                 Some (''Route '' @ r_route_code r @ '' has standby time on '' @ date_text a
                       @ '' but departure on '' @ date_text b))),
         ra_severity = ''Medium'',
         ra_is_read = Some False,
         ra_read_at = None,
         ra_created_for_user = rs_owner_user_id rs,
         ra_created_at = Some now \<rparr>)"

definition detect_cross_day_conflict :: "timestamptz \<Rightarrow> db \<Rightarrow> db" where
  "detect_cross_day_conflict now s =
     (let today = CURRENT_DATE now;
          s1 = s\<lparr> route_alerts :=
                  [a \<leftarrow> route_alerts s. \<not> (ra_alert_type a = ''TimeCrossDay'' \<and> created_on today a)] \<rparr>
      in insert_route_alerts (map (cross_day_alert now) (cross_day_rows today s1)) s1)"

section \<open>Constraints of the schema\<close>

text \<open>
  The primary keys of instances, templates and routes, and the foreign keys
  \<^verbatim>\<open>schedule_instances.route_schedule_id\<close> and \<^verbatim>\<open>route_schedules.route_id\<close> (both
  \<^verbatim>\<open>NOT NULL\<close>). PostgreSQL keeps them; a database that a function receives satisfies them.
\<close>

definition schedule_integrity :: "db \<Rightarrow> bool" where
  "schedule_integrity s \<longleftrightarrow>
     distinct (map si_id (schedule_instances s))
     \<and> distinct (map rs_id (route_schedules s))
     \<and> distinct (map r_id (routes s))
     \<and> (\<forall>si \<in> set (schedule_instances s). si_route_schedule_id si \<in> rs_id ` set (route_schedules s))
     \<and> (\<forall>rs \<in> set (route_schedules s). rs_route_id rs \<in> r_id ` set (routes s))"

section \<open>Errors of a statement\<close>

text \<open>
  The functions of the migration raise no error of their own; a statement fails when a
  constraint of the schema, a cast or a policy fails. A failed statement changes nothing:
  a function returns \<open>Inl\<close> with the error, or \<open>Inr\<close> with its result and the new database.

  \<^verbatim>\<open>create_support_offer\<close> below is the body of the function, for a call whose
  statements the role may run. The audit trigger of \<^verbatim>\<open>support_offer\<close> is left to the
  part on the audit: when it succeeds it appends to \<^verbatim>\<open>audit_logs\<close> and touches no other
  table, and when it fails the call fails. \<^verbatim>\<open>assign_route_responsibility\<close> comes after
  that part, with the session of the call and the trigger of its table.
\<close>

datatype sql_error =
    Not_null_violation
  | Check_violation
  | Foreign_key_violation
  | Invalid_text_representation
  | Insufficient_privilege

text \<open>A nullable foreign key: null, or the key of a row of the referenced table.\<close>

definition references :: "uuid option \<Rightarrow> uuid list \<Rightarrow> bool" where
  "references fk keys = (case fk of None \<Rightarrow> True | Some k \<Rightarrow> k \<in> set keys)"

section \<open>Support offers: \<^verbatim>\<open>create_support_offer\<close>\<close>

text \<open>
  The insert into \<^verbatim>\<open>support_offer\<close> with \<^verbatim>\<open>expires_at = now() + INTERVAL '24 hours'\<close> and
  the defaults of the other columns (\<^verbatim>\<open>priority\<close> Medium, \<^verbatim>\<open>status\<close> Pending,
  \<^verbatim>\<open>created_at = now()\<close>), then the insert of the alert for the offer. \<^verbatim>\<open>now()\<close> is the
  time of the transaction, the same in both. A parameter that the caller leaves out has
  its default: null, or \<^verbatim>\<open>'Resource'\<close> for \<^verbatim>\<open>p_offer_type\<close>.
\<close>

definition create_support_offer ::
  "timestamptz \<Rightarrow> uuid option \<Rightarrow> uuid option \<Rightarrow> uuid option \<Rightarrow> uuid option \<Rightarrow> uuid option
     \<Rightarrow> string option \<Rightarrow> string option \<Rightarrow> db \<Rightarrow> sql_error + (uuid \<times> db)" where
  "create_support_offer now p_route_schedule_id p_from_user_id p_to_user_id
       p_proposed_driver_id p_proposed_vehicle_id p_message p_offer_type s =
     (case p_from_user_id of None \<Rightarrow> Inl Not_null_violation | Some from_user \<Rightarrow>
     (case p_offer_type of None \<Rightarrow> Inl Not_null_violation | Some offer_type \<Rightarrow>
        if \<not> (offer_type = ''Resource'' \<or> offer_type = ''Takeover'' \<or> offer_type = ''Assistance'')
        then Inl Check_violation
        else if \<not> (references p_route_schedule_id (map rs_id (route_schedules s))
                    \<and> from_user \<in> set (map u_id (users s))
                    \<and> references p_to_user_id (map u_id (users s))
                    \<and> references p_proposed_driver_id (map d_id (drivers s))
                    \<and> references p_proposed_vehicle_id (map v_id (vehicles s)))
        then Inl Foreign_key_violation
        else Inr (next_uuid s,
          s\<lparr> support_offer := support_offer s @
               [\<lparr> so_id = next_uuid s,
                  so_route_schedule_id = p_route_schedule_id,
                  so_schedule_instance_id = None,
                  so_from_user_id = from_user,
                  so_to_user_id = p_to_user_id,
                  so_proposed_driver_id = p_proposed_driver_id,
                  so_proposed_vehicle_id = p_proposed_vehicle_id,
                  so_offer_type = offer_type,
                  so_message = p_message,
                  so_priority = ''Medium'',
                  so_status = ''Pending'',
                  so_expires_at = Some (now + 24 * 3600),
                  so_responded_at = None,
                  so_response_message = None,
                  so_created_at = Some now \<rparr>],
             route_alerts := route_alerts s @
               [\<lparr> ra_id = Suc (next_uuid s),
                  ra_route_schedule_id = p_route_schedule_id,
                  ra_schedule_instance_id = None,
                  ra_alert_type = ''Offer'',
                  ra_title = ''New Support Offer'',
                  ra_message = p_message,
                  ra_severity = ''Medium'',
                  ra_is_read = Some False,
                  ra_read_at = None,
                  ra_created_for_user = p_to_user_id,
                  ra_created_at = Some now \<rparr>],
             next_uuid := Suc (Suc (next_uuid s)) \<rparr>)))"

text \<open>The keys of the offers in the table are keys the generator has issued.\<close>

definition support_offer_integrity :: "db \<Rightarrow> bool" where
  "support_offer_integrity s \<longleftrightarrow> (\<forall>so \<in> set (support_offer s). so_id so < next_uuid s)"

text \<open>Reading an offer back: \<^verbatim>\<open>SELECT * FROM support_offer WHERE id = offer_id\<close>.\<close>

definition support_offer_by_id :: "db \<Rightarrow> uuid \<Rightarrow> support_offer_row option" where
  "support_offer_by_id s offer_id = find (\<lambda>so. so_id so = offer_id) (support_offer s)"

text \<open>
  Modelled from the spec: the scheduled sweep of expired support offers. The migration
  has the column \<^verbatim>\<open>expires_at\<close> and the status value \<^verbatim>\<open>'Expired'\<close>, and no function,
  trigger or job that sets it. After the specification (``expired, unanswered support
  offers transition to status Expired by a scheduled sweep rather than being deleted'';
  ``after 24 hours with no response, a sweep marks it Expired exactly once''), the sweep
  at time \<open>now\<close> sets the status of every offer that is still Pending and whose
  \<^verbatim>\<open>expires_at\<close> is not after \<open>now\<close> to Expired, deletes nothing, and returns the
  keys of the offers it marked.
\<close>

definition offer_expired :: "timestamptz \<Rightarrow> support_offer_row \<Rightarrow> bool" where
  "offer_expired now so \<longleftrightarrow>
     so_status so = ''Pending''
     \<and> (case so_expires_at so of None \<Rightarrow> False | Some t \<Rightarrow> t \<le> now)"

definition sweep_expired_offers :: "timestamptz \<Rightarrow> db \<Rightarrow> uuid list \<times> db" where
  "sweep_expired_offers now s =
     (map so_id [so \<leftarrow> support_offer s. offer_expired now so],
      s\<lparr> support_offer :=
           map (\<lambda>so. if offer_expired now so then so\<lparr> so_status := ''Expired'' \<rparr> else so)
               (support_offer s) \<rparr>)"

section \<open>Constraints of the resources\<close>

text \<open>
  The other constraints of \<^verbatim>\<open>schedule_instances\<close> and \<^verbatim>\<open>route_schedules\<close>:
  \<^verbatim>\<open>UNIQUE(route_schedule_id, schedule_date)\<close>, the \<^verbatim>\<open>CHECK\<close> of both status columns, and
  the foreign keys to drivers, vehicles and users.
\<close>

definition instance_key :: "schedule_instance \<Rightarrow> uuid \<times> date" where
  "instance_key si = (si_route_schedule_id si, si_schedule_date si)"

definition resource_integrity :: "db \<Rightarrow> bool" where
  "resource_integrity s \<longleftrightarrow>
     distinct (map instance_key (schedule_instances s))
     \<and> (\<forall>si \<in> set (schedule_instances s).
           references (si_driver_id si) (map d_id (drivers s))
           \<and> references (si_vehicle_id si) (map v_id (vehicles s))
           \<and> si_status si \<in> set [''Scheduled'', ''Confirmed'', ''In Progress'', ''Completed'', ''Cancelled''])
     \<and> (\<forall>rs \<in> set (route_schedules s).
           references (rs_default_driver_id rs) (map d_id (drivers s))
           \<and> references (rs_default_vehicle_id rs) (map v_id (vehicles s))
           \<and> references (rs_owner_user_id rs) (map u_id (users s))
           \<and> references (rs_helper_user_id rs) (map u_id (users s))
           \<and> rs_status rs \<in> set [''Pending'', ''Confirmed'', ''Changed'', ''Cancelled''])"

section \<open>Audit: \<^verbatim>\<open>audit_trigger_function()\<close> and the audit triggers\<close>

datatype tg_op = INSERT | UPDATE | DELETE

text \<open>
  A run-time setting read with \<^verbatim>\<open>current_setting(name, true)\<close> and cast to a type: not
  set (null), the text of a value of the type, or a text that the cast rejects.
\<close>

datatype 'a setting = Unset | Text_of 'a | Malformed string

text \<open>
  The session of the statement. The trigger function is not \<^verbatim>\<open>SECURITY DEFINER\<close>: it runs
  with the rights of the role of the session. Row level security is enabled on
  \<^verbatim>\<open>audit_logs\<close> and the migration gives the table one policy, for \<^verbatim>\<open>SELECT\<close>; so a role
  can insert into \<^verbatim>\<open>audit_logs\<close> only if it bypasses row level security (the owner of
  the table, the service role), and the roles \<^verbatim>\<open>authenticated\<close> and \<^verbatim>\<open>anon\<close> cannot.
  \<^verbatim>\<open>auth.jwt() ->> 'role'\<close>, which the policies of other tables read, is a value of the
  session: the function \<^verbatim>\<open>auth.jwt()\<close> belongs to the platform, not to the migration.
\<close>

record session =
  bypasses_rls :: bool
  auth_jwt_role :: "string option"
  app_current_user_id :: "uuid setting"
  app_current_user_email :: "string option"
  app_client_ip :: "string setting"
  app_user_agent :: "string option"

text \<open>
  The first block of the function, with its handler \<^verbatim>\<open>EXCEPTION WHEN OTHERS\<close>: when the
  cast of \<^verbatim>\<open>app.current_user_id\<close> to \<^verbatim>\<open>UUID\<close> fails, both variables are null.
\<close>

definition current_user_info :: "session \<Rightarrow> uuid option \<times> string option" where
  "current_user_info sess =
     (case app_current_user_id sess of
        Unset \<Rightarrow> (None, app_current_user_email sess)
      | Text_of u \<Rightarrow> (Some u, app_current_user_email sess)
      | Malformed _ \<Rightarrow> (None, None))"

text \<open>The decimal text of a key, for \<^verbatim>\<open>id::text\<close>.\<close>

function show_nat :: "nat \<Rightarrow> string" where
  "show_nat n = (if n < 10 then [digit (int n)] else show_nat (n div 10) @ [digit (int (n mod 10))])"
  by pat_completeness auto
termination
  by (relation "measure id") auto

declare show_nat.simps [simp del]

text \<open>A column of \<^verbatim>\<open>OLD\<close> or \<^verbatim>\<open>NEW\<close> as text: null when the row is null or the column is.\<close>

definition row_text :: "jsonb option \<Rightarrow> string \<Rightarrow> string option" where
  "row_text row k = (case row of None \<Rightarrow> None | Some j \<Rightarrow> (case map_of j k of None \<Rightarrow> None | Some v \<Rightarrow> v))"

text \<open>The \<^verbatim>\<open>CASE TG_TABLE_NAME\<close> of the function: the tables it names, else \<^verbatim>\<open>'unknown'\<close>.\<close>

definition named_tables :: "string list" where
  "named_tables =
     [''drivers'', ''vehicles'', ''customers'', ''routes'', ''route_schedules'',
      ''schedule_instances'', ''users'', ''support_offer'', ''route_responsibility'',
      ''app_settings'', ''suggestion_config'']"

definition record_id_of :: "string \<Rightarrow> jsonb option \<Rightarrow> jsonb option \<Rightarrow> string option" where
  "record_id_of TG_TABLE_NAME OLD NEW =
     (if TG_TABLE_NAME \<in> set named_tables
      then COALESCE (row_text NEW ''id'') (row_text OLD ''id'')
      else Some ''unknown'')"

text \<open>
  The loop of an \<^verbatim>\<open>UPDATE\<close>: the keys of \<^verbatim>\<open>to_jsonb(NEW)\<close> whose value differs from the
  value in \<^verbatim>\<open>to_jsonb(OLD)\<close>; a key that \<^verbatim>\<open>OLD\<close> has not gives null and is not taken.
\<close>

definition changed_fields :: "jsonb \<Rightarrow> jsonb \<Rightarrow> string list" where
  "changed_fields new old =
     [k. (k, v) \<leftarrow> new, (case map_of old k of None \<Rightarrow> False | Some v' \<Rightarrow> v \<noteq> v')]"

text \<open>
  The insert into \<^verbatim>\<open>audit_logs\<close>. It is outside the handler of the first block, so each
  of its failures leaves the function as an error: the policy check of row level
  security, \<^verbatim>\<open>NOT NULL\<close> of \<^verbatim>\<open>record_id\<close>, and the foreign key of \<^verbatim>\<open>user_id\<close> to \<^verbatim>\<open>users\<close>.
\<close>

definition insert_audit_log ::
  "session \<Rightarrow> string option \<Rightarrow> (uuid \<Rightarrow> string \<Rightarrow> audit_log) \<Rightarrow> db \<Rightarrow> sql_error + db" where
  "insert_audit_log sess record_id mk s =
     (if \<not> bypasses_rls sess then Inl Insufficient_privilege
      else (case record_id of None \<Rightarrow> Inl Not_null_violation | Some rid \<Rightarrow>
        if \<not> references (al_user_id (mk (next_uuid s) rid)) (map u_id (users s))
        then Inl Foreign_key_violation
        else Inr (s\<lparr> audit_logs := audit_logs s @ [mk (next_uuid s) rid],
                     next_uuid := Suc (next_uuid s) \<rparr>)))"

text \<open>
  The function, for a row trigger \<^verbatim>\<open>AFTER INSERT OR UPDATE OR DELETE\<close>: \<^verbatim>\<open>OLD\<close> is null in
  an insert and \<^verbatim>\<open>NEW\<close> in a delete. The cast of \<^verbatim>\<open>app.client_ip\<close> to \<^verbatim>\<open>INET\<close> is part of
  the insert and has no handler. The value the function returns is ignored for an
  \<^verbatim>\<open>AFTER\<close> trigger and is left out.
\<close>

definition audit_trigger_function ::
  "session \<Rightarrow> timestamptz \<Rightarrow> string \<Rightarrow> tg_op \<Rightarrow> jsonb option \<Rightarrow> jsonb option \<Rightarrow> db
     \<Rightarrow> sql_error + db" where
  "audit_trigger_function sess now TG_TABLE_NAME TG_OP OLD NEW s =
     (let v_user_id = fst (current_user_info sess);
          v_user_email = snd (current_user_info sess);
          v_record_id = record_id_of TG_TABLE_NAME OLD NEW;
          v_changed_fields =
            (case TG_OP of
               UPDATE \<Rightarrow> (case NEW of None \<Rightarrow> [] | Some n \<Rightarrow>
                            (case OLD of None \<Rightarrow> [] | Some p \<Rightarrow> changed_fields n p))
             | _ \<Rightarrow> [])
      in (case app_client_ip sess of
            Malformed _ \<Rightarrow> Inl Invalid_text_representation
          | ip \<Rightarrow>
              insert_audit_log sess v_record_id
                (\<lambda>new_id rid.
                   \<lparr> al_id = new_id,
                     al_table_name = TG_TABLE_NAME,
                     al_record_id = rid,
                     al_operation =
                       (case TG_OP of INSERT \<Rightarrow> ''INSERT'' | UPDATE \<Rightarrow> ''UPDATE'' | DELETE \<Rightarrow> ''DELETE''),
                     al_old_values = (case TG_OP of INSERT \<Rightarrow> None | _ \<Rightarrow> OLD),
                     al_new_values = (case TG_OP of DELETE \<Rightarrow> None | _ \<Rightarrow> NEW),
                     al_changed_fields = (case TG_OP of UPDATE \<Rightarrow> Some v_changed_fields | _ \<Rightarrow> None),
                     al_user_id = v_user_id,
                     al_user_email = v_user_email,
                     al_ip_address = (case ip of Text_of a \<Rightarrow> Some a | _ \<Rightarrow> None),
                     al_user_agent = app_user_agent sess,
                     al_created_at = Some now \<rparr>)
                s))"

text \<open>
  A statement that changes one row of a table with an audit trigger: the change of the
  row, then the trigger on the changed database. An error in the trigger is an error of
  the statement, and a failed statement leaves the database as it was before.
\<close>

definition tracked_statement ::
  "session \<Rightarrow> timestamptz \<Rightarrow> string \<Rightarrow> tg_op \<Rightarrow> jsonb option \<Rightarrow> jsonb option \<Rightarrow> (db \<Rightarrow> db) \<Rightarrow> db
     \<Rightarrow> sql_error + db" where
  "tracked_statement sess now TG_TABLE_NAME TG_OP OLD NEW change s =
     audit_trigger_function sess now TG_TABLE_NAME TG_OP OLD NEW (change s)"

definition database_after :: "db \<Rightarrow> sql_error + db \<Rightarrow> db" where
  "database_after s result = (case result of Inl _ \<Rightarrow> s | Inr s' \<Rightarrow> s')"

text \<open>\<^verbatim>\<open>INSERT INTO drivers\<close>, with the trigger \<^verbatim>\<open>audit_drivers\<close>.\<close>

definition driver_jsonb :: "driver \<Rightarrow> jsonb" where
  "driver_jsonb d =
     [(''id'', Some (show_nat (d_id d))), (''driver_code'', Some (d_driver_code d)),
      (''name'', Some (d_name d))]"

definition insert_driver :: "session \<Rightarrow> timestamptz \<Rightarrow> driver \<Rightarrow> db \<Rightarrow> sql_error + db" where
  "insert_driver sess now d s =
     tracked_statement sess now ''drivers'' INSERT None (Some (driver_jsonb d))
       (\<lambda>s. s\<lparr> drivers := drivers s @ [d] \<rparr>) s"

section \<open>Route responsibility: \<^verbatim>\<open>assign_route_responsibility\<close>\<close>

text \<open>
  Row level security is enabled on \<^verbatim>\<open>route_responsibility\<close>. The one policy that admits
  a write is \<^verbatim>\<open>FOR ALL TO authenticated USING (auth.jwt() ->> 'role' IN ('Admin',
  'Planner'))\<close>, which is also the check of a new row. The function is not
  \<^verbatim>\<open>SECURITY DEFINER\<close>, so its statement runs with the rights of the caller.
\<close>

definition manages_route_responsibility :: "session \<Rightarrow> bool" where
  "manages_route_responsibility sess \<longleftrightarrow>
     bypasses_rls sess \<or> auth_jwt_role sess = Some ''Admin'' \<or> auth_jwt_role sess = Some ''Planner''"

text \<open>
  The text of a time stamp in \<^verbatim>\<open>to_jsonb\<close>, \<^verbatim>\<open>YYYY-MM-DDThh:mm:ss+00:00\<close>, and of a
  Boolean.
\<close>

definition two_digits :: "int \<Rightarrow> string" where
  "two_digits n = [digit (n div 10), digit n]"

definition timestamptz_text :: "timestamptz \<Rightarrow> string" where
  "timestamptz_text ts =
     date_text (DATE ts) @ ''T'' @ two_digits (ts mod 86400 div 3600) @ '':''
     @ two_digits (ts mod 3600 div 60) @ '':'' @ two_digits (ts mod 60) @ ''+00:00''"

definition bool_text :: "bool \<Rightarrow> string" where
  "bool_text b = (if b then ''true'' else ''false'')"

text \<open>
  \<^verbatim>\<open>to_jsonb\<close> of a row of the table, the keys in the order \<^verbatim>\<open>jsonb\<close> keeps them
  (shorter keys first).
\<close>

definition route_responsibility_jsonb :: "route_responsibility_row \<Rightarrow> jsonb" where
  "route_responsibility_jsonb rr =
     [(''id'', Some (show_nat (rr_id rr))),
      (''role'', Some (rr_role rr)),
      (''user_id'', Some (show_nat (rr_user_id rr))),
      (''route_id'', Some (show_nat (rr_route_id rr))),
      (''is_active'', map_option bool_text (rr_is_active rr)),
      (''created_at'', map_option timestamptz_text (rr_created_at rr)),
      (''assigned_at'', map_option timestamptz_text (rr_assigned_at rr)),
      (''assigned_by'', map_option show_nat (rr_assigned_by rr))]"

definition same_grant :: "uuid \<Rightarrow> uuid \<Rightarrow> string \<Rightarrow> route_responsibility_row \<Rightarrow> bool" where
  "same_grant route usr role rr \<longleftrightarrow>
     rr_route_id rr = route \<and> rr_user_id rr = usr \<and> rr_role rr = role"

text \<open>\<^verbatim>\<open>DO UPDATE SET is_active = true, assigned_at = now(), assigned_by = p_assigned_by\<close>.\<close>

definition reactivated ::
  "timestamptz \<Rightarrow> uuid option \<Rightarrow> route_responsibility_row \<Rightarrow> route_responsibility_row" where
  "reactivated now p_assigned_by rr =
     rr\<lparr> rr_is_active := Some True, rr_assigned_at := Some now, rr_assigned_by := p_assigned_by \<rparr>"

text \<open>\<^verbatim>\<open>RETURNING id INTO v_responsibility_id\<close>, when the statement has succeeded.\<close>

definition returning_id :: "uuid \<Rightarrow> sql_error + db \<Rightarrow> sql_error + (uuid \<times> db)" where
  "returning_id i result = (case result of Inl e \<Rightarrow> Inl e | Inr s' \<Rightarrow> Inr (i, s'))"

text \<open>
  \<^verbatim>\<open>INSERT ... ON CONFLICT (route_id, user_id, role) DO UPDATE ... RETURNING id\<close>.
  The policy of the table is checked first, then the proposed row against \<^verbatim>\<open>NOT NULL\<close>
  and the \<^verbatim>\<open>CHECK\<close> of \<^verbatim>\<open>role\<close>. When a row with the same \<^verbatim>\<open>(route_id, user_id, role)\<close>
  exists, that row is updated and its \<^verbatim>\<open>id\<close> returned; otherwise the row is inserted with
  a generated \<^verbatim>\<open>id\<close> and the defaults \<^verbatim>\<open>assigned_at = now()\<close>, \<^verbatim>\<open>is_active = TRUE\<close>. After
  the row is written, the foreign keys are checked and the row trigger
  \<^verbatim>\<open>audit_route_responsibility\<close> runs, for an \<^verbatim>\<open>UPDATE\<close> or an \<^verbatim>\<open>INSERT\<close>: an error of the
  trigger is an error of the call. The parameters may be null.
\<close>

definition assign_route_responsibility ::
  "session \<Rightarrow> timestamptz \<Rightarrow> uuid option \<Rightarrow> uuid option \<Rightarrow> string option \<Rightarrow> uuid option \<Rightarrow> db
     \<Rightarrow> sql_error + (uuid \<times> db)" where
  "assign_route_responsibility sess now p_route_id p_user_id p_role p_assigned_by s =
     (if \<not> manages_route_responsibility sess then Inl Insufficient_privilege else
     (case p_route_id of None \<Rightarrow> Inl Not_null_violation | Some route \<Rightarrow>
     (case p_user_id of None \<Rightarrow> Inl Not_null_violation | Some usr \<Rightarrow>
     (case p_role of None \<Rightarrow> Inl Not_null_violation | Some role \<Rightarrow>
        if \<not> (role = ''Primary'' \<or> role = ''Backup'' \<or> role = ''Observer'') then Inl Check_violation
        else
          (case find (same_grant route usr role) (route_responsibility s) of
             Some existing \<Rightarrow>
               if \<not> references p_assigned_by (map u_id (users s)) then Inl Foreign_key_violation
               else returning_id (rr_id existing)
                 (tracked_statement sess now ''route_responsibility'' UPDATE
                    (Some (route_responsibility_jsonb existing))
                    (Some (route_responsibility_jsonb (reactivated now p_assigned_by existing)))
                    (\<lambda>s. s\<lparr> route_responsibility :=
                            map (\<lambda>rr. if same_grant route usr role rr
                                      then reactivated now p_assigned_by rr else rr)
                                (route_responsibility s) \<rparr>)
                    s)
           | None \<Rightarrow>
               if \<not> (route \<in> set (map r_id (routes s)) \<and> usr \<in> set (map u_id (users s))
                      \<and> references p_assigned_by (map u_id (users s)))
               then Inl Foreign_key_violation
               else
                 (let new_row =
                        \<lparr> rr_id = next_uuid s, rr_route_id = route, rr_user_id = usr, rr_role = role,
                          rr_assigned_at = Some now, rr_assigned_by = p_assigned_by,
                          rr_is_active = Some True, rr_created_at = Some now \<rparr>
                  in returning_id (next_uuid s)
                       (tracked_statement sess now ''route_responsibility'' INSERT
                          None (Some (route_responsibility_jsonb new_row))
                          (\<lambda>s. s\<lparr> route_responsibility := route_responsibility s @ [new_row],
                                  next_uuid := Suc (next_uuid s) \<rparr>)
                          s)))))))"

text \<open>
  The constraints of \<^verbatim>\<open>route_responsibility\<close>: \<^verbatim>\<open>UNIQUE(route_id, user_id, role)\<close>, the
  primary key, the \<^verbatim>\<open>CHECK\<close> of \<^verbatim>\<open>role\<close>, and that a generated key is new.
\<close>

definition grant_key :: "route_responsibility_row \<Rightarrow> uuid \<times> uuid \<times> string" where
  "grant_key rr = (rr_route_id rr, rr_user_id rr, rr_role rr)"

definition responsibility_integrity :: "db \<Rightarrow> bool" where
  "responsibility_integrity s \<longleftrightarrow>
     distinct (map grant_key (route_responsibility s))
     \<and> distinct (map rr_id (route_responsibility s))
     \<and> (\<forall>rr \<in> set (route_responsibility s).
           rr_role rr = ''Primary'' \<or> rr_role rr = ''Backup'' \<or> rr_role rr = ''Observer'')
     \<and> (\<forall>rr \<in> set (route_responsibility s). rr_id rr < next_uuid s)"

text \<open>
  The session can have its audit record written: the role bypasses the row level
  security of \<^verbatim>\<open>audit_logs\<close>, \<^verbatim>\<open>app.client_ip\<close> is unset or an address, and the actor of
  the session is unset, malformed or the key of a user.
\<close>

definition audit_admitted :: "session \<Rightarrow> db \<Rightarrow> bool" where
  "audit_admitted sess s \<longleftrightarrow>
     bypasses_rls sess
     \<and> (case app_client_ip sess of Malformed _ \<Rightarrow> False | _ \<Rightarrow> True)
     \<and> references (fst (current_user_info sess)) (map u_id (users s))"

section \<open>Suggestions\<close>

text \<open>
  The default rows of \<^verbatim>\<open>suggestion_config\<close>, as the migration inserts them
  (\<^verbatim>\<open>config_key\<close>, \<^verbatim>\<open>config_value DECIMAL(10,4)\<close>).
\<close>

definition suggestion_config :: "(string \<times> rat) list" where
  "suggestion_config =
     [(''min_gap_minutes'', 30),
      (''max_gap_minutes'', 240),
      (''max_distance_km'', 50),
      (''distance_weight'', 4 / 10),
      (''time_weight'', 6 / 10),
      (''traffic_factor'', 12 / 10),
      (''fuel_cost_per_km'', 85 / 10),
      (''driver_hourly_rate'', 150),
      (''efficiency_threshold'', 7 / 10),
      (''max_suggestions_per_route'', 5)]"

text \<open>
  Modelled from the spec: the suggestion engine \<^verbatim>\<open>suggestConsolidations(date)\<close>. The
  migration has the tables \<^verbatim>\<open>smart_suggestions\<close>, \<^verbatim>\<open>route_distance_cache\<close> and
  \<^verbatim>\<open>suggestion_config\<close> with the rows above, and no function, view or trigger that computes
  or inserts a suggestion. After section 4.4 of the specification: for every ordered pair
  of distinct routes with occurrences on the date, the gap is the departure of the second
  minus the estimated arrival of the first, in minutes; when the gap is within
  \<open>[minGapMinutes, maxGapMinutes]\<close> and the distance of the routes (from a distance
  lookup) is at most \<open>maxDistanceKm\<close>, the efficiency is
  \<open>distanceWeight \<sqdot> (1 - distance / maxDistance) + timeWeight \<sqdot> (1 - gap / maxGap)\<close>; a
  record is emitted when the efficiency is at least \<open>efficiencyThreshold\<close>, at most
  \<open>maxSuggestionsPerRoute\<close> records per source route, the highest scores first, ties
  broken by the lower gap, then by the route code.
\<close>

record settings =
  minGapMinutes :: rat
  maxGapMinutes :: rat
  maxDistanceKm :: rat
  distanceWeight :: rat
  timeWeight :: rat
  efficiencyThreshold :: rat
  maxSuggestionsPerRoute :: nat

definition config_value :: "(string \<times> rat) list \<Rightarrow> string \<Rightarrow> rat" where
  "config_value rows k = (case map_of rows k of None \<Rightarrow> 0 | Some v \<Rightarrow> v)"

definition settings_of :: "(string \<times> rat) list \<Rightarrow> settings" where
  "settings_of rows =
     \<lparr> minGapMinutes = config_value rows ''min_gap_minutes'',
       maxGapMinutes = config_value rows ''max_gap_minutes'',
       maxDistanceKm = config_value rows ''max_distance_km'',
       distanceWeight = config_value rows ''distance_weight'',
       timeWeight = config_value rows ''time_weight'',
       efficiencyThreshold = config_value rows ''efficiency_threshold'',
       maxSuggestionsPerRoute = nat \<lfloor>config_value rows ''max_suggestions_per_route''\<rfloor> \<rparr>"

definition default_settings :: settings where
  "default_settings = settings_of suggestion_config"

text \<open>An occurrence of a route on the date: departure and estimated arrival in minutes of the day.\<close>

record occurrence =
  oc_route_id :: uuid
  oc_route_code :: string
  oc_departure :: int
  oc_estimated_arrival :: int

record suggestion =
  sg_from_route_id :: uuid
  sg_to_route_id :: uuid
  sg_to_route_code :: string
  sg_suggestion_date :: date
  sg_gap_minutes :: int
  sg_distance_km :: rat
  sg_efficiency_score :: rat

definition efficiency :: "settings \<Rightarrow> rat \<Rightarrow> int \<Rightarrow> rat" where
  "efficiency cfg distance gap =
     distanceWeight cfg * (1 - distance / maxDistanceKm cfg)
     + timeWeight cfg * (1 - of_int gap / maxGapMinutes cfg)"

text \<open>The record of an ordered pair, when it passes the gap, the distance and the threshold.\<close>

definition pair_suggestion ::
  "settings \<Rightarrow> (uuid \<times> uuid \<Rightarrow> rat option) \<Rightarrow> date \<Rightarrow> occurrence \<Rightarrow> occurrence \<Rightarrow> suggestion list" where
  "pair_suggestion cfg distance_lookup day a b =
     (let gap = oc_departure b - oc_estimated_arrival a in
      if oc_route_id a \<noteq> oc_route_id b
         \<and> minGapMinutes cfg \<le> of_int gap \<and> of_int gap \<le> maxGapMinutes cfg
      then (case distance_lookup (oc_route_id a, oc_route_id b) of
              None \<Rightarrow> []
            | Some d \<Rightarrow>
                if d \<le> maxDistanceKm cfg \<and> efficiencyThreshold cfg \<le> efficiency cfg d gap
                then [\<lparr> sg_from_route_id = oc_route_id a,
                        sg_to_route_id = oc_route_id b,
                        sg_to_route_code = oc_route_code b,
                        sg_suggestion_date = day,
                        sg_gap_minutes = gap,
                        sg_distance_km = d,
                        sg_efficiency_score = efficiency cfg d gap \<rparr>]
                else [])
      else [])"

definition candidates ::
  "settings \<Rightarrow> (uuid \<times> uuid \<Rightarrow> rat option) \<Rightarrow> date \<Rightarrow> occurrence list \<Rightarrow> suggestion list" where
  "candidates cfg distance_lookup day occs =
     [c. a \<leftarrow> occs, b \<leftarrow> occs, c \<leftarrow> pair_suggestion cfg distance_lookup day a b]"

text \<open>The order of the records of one source route.\<close>

fun lex_le :: "nat list \<Rightarrow> nat list \<Rightarrow> bool" where
  "lex_le [] ys = True"
| "lex_le (x # xs) [] = False"
| "lex_le (x # xs) (y # ys) = (x < y \<or> (x = y \<and> lex_le xs ys))"

definition ranks_before :: "suggestion \<Rightarrow> suggestion \<Rightarrow> bool" where
  "ranks_before x y \<longleftrightarrow>
     sg_efficiency_score y < sg_efficiency_score x
     \<or> (sg_efficiency_score x = sg_efficiency_score y
        \<and> (sg_gap_minutes x < sg_gap_minutes y
           \<or> (sg_gap_minutes x = sg_gap_minutes y
              \<and> lex_le (map of_char (sg_to_route_code x)) (map of_char (sg_to_route_code y)))))"

fun insert_ranked :: "suggestion \<Rightarrow> suggestion list \<Rightarrow> suggestion list" where
  "insert_ranked x [] = [x]"
| "insert_ranked x (y # ys) = (if ranks_before x y then x # y # ys else y # insert_ranked x ys)"

fun ranked :: "suggestion list \<Rightarrow> suggestion list" where
  "ranked [] = []"
| "ranked (x # xs) = insert_ranked x (ranked xs)"

definition suggestConsolidations ::
  "settings \<Rightarrow> (uuid \<times> uuid \<Rightarrow> rat option) \<Rightarrow> date \<Rightarrow> occurrence list \<Rightarrow> suggestion list" where
  "suggestConsolidations cfg distance_lookup day occs =
     (let cs = candidates cfg distance_lookup day occs
      in concat (map (\<lambda>src. take (maxSuggestionsPerRoute cfg)
                                (ranked [c \<leftarrow> cs. sg_from_route_id c = src]))
                     (group_keys (map sg_from_route_id cs))))"

section \<open>Example data\<close>

text \<open>
  Day 20280 is Friday 2025-07-11, day 20282 Sunday 2025-07-13, day 20283 Monday 2025-07-14.
\<close>

definition example_instance ::
  "uuid \<Rightarrow> date \<Rightarrow> uuid option \<Rightarrow> uuid option \<Rightarrow> string \<Rightarrow> schedule_instance" where
  "example_instance i day drv veh st =
     \<lparr> si_id = i, si_route_schedule_id = 50, si_schedule_date = day,
       si_driver_id = drv, si_vehicle_id = veh,
       si_standby_date = None, si_standby_time = None,
       si_departure_date = None, si_departure_time = None,
       si_status = st, si_is_override = Some True, si_is_deleted = Some False \<rparr>"

definition empty_db :: db where
  "empty_db =
     \<lparr> drivers = [], vehicles = [], customers = [], users = [], routes = [],
       route_schedules = [], schedule_instances = [], route_responsibility = [],
       support_offer = [], route_alerts = [], conflict_checks = [], audit_logs = [],
       next_uuid = 1000 \<rparr>"

definition three_bookings_db :: db where
  "three_bookings_db =
     empty_db\<lparr> schedule_instances :=
       [example_instance 101 20280 (Some 7) (Some 9) ''Confirmed'',
        example_instance 102 20280 (Some 7) (Some 9) ''Confirmed'',
        example_instance 103 20280 (Some 7) None ''Confirmed'',
        example_instance 104 20280 (Some 8) (Some 9) ''Cancelled'',
        example_instance 105 20281 (Some 7) (Some 9) ''Confirmed''] \<rparr>"

definition example_now :: timestamptz where
  "example_now = 20280 * 86400 + 3600"

definition example_route :: route where
  "example_route =
     \<lparr> r_id = 30, r_route_code = ''RTE000001'', r_name = ''North loop'',
       r_region = None, r_customer_id = None \<rparr>"

definition example_drivers :: "driver list" where
  "example_drivers =
     [\<lparr> d_id = 7, d_driver_code = ''DRV000001'', d_name = ''Anan'' \<rparr>,
      \<lparr> d_id = 8, d_driver_code = ''DRV000002'', d_name = ''Boon'' \<rparr>]"

definition example_users :: "user list" where
  "example_users = [\<lparr> u_id = 1, u_name = ''Planner'' \<rparr>, \<lparr> u_id = 2, u_name = ''Helper'' \<rparr>]"

definition example_template ::
  "uuid \<Rightarrow> date \<Rightarrow> date option \<Rightarrow> int list option \<Rightarrow> uuid option \<Rightarrow> route_schedule" where
  "example_template i start stop days drv =
     \<lparr> rs_id = i, rs_route_id = 30, rs_days_of_week = days,
       rs_start_date = start, rs_end_date = stop,
       rs_standby_time = Some 28800, rs_departure_time = Some 30600,
       rs_default_driver_id = drv, rs_default_vehicle_id = None,
       rs_owner_user_id = Some 1, rs_helper_user_id = None,
       rs_status = ''Confirmed'', rs_created_at = Some 0 \<rparr>"

definition base_db :: db where
  "base_db = empty_db\<lparr> drivers := example_drivers, users := example_users, routes := [example_route] \<rparr>"

text \<open>Two templates with the same default driver on the same Friday, and no instance row.\<close>

definition defaults_only_db :: db where
  "defaults_only_db =
     base_db\<lparr> route_schedules :=
       [example_template 50 20280 (Some 20280) (Some [1, 2, 3, 4, 5, 6, 7]) (Some 7),
        example_template 51 20280 (Some 20280) (Some [1, 2, 3, 4, 5, 6, 7]) (Some 7)] \<rparr>"

text \<open>A template for every day of the week, from a Sunday to the Monday after it.\<close>

definition sunday_db :: db where
  "sunday_db =
     base_db\<lparr> route_schedules :=
       [example_template 50 20282 (Some 20283) (Some [1, 2, 3, 4, 5, 6, 7]) (Some 7)] \<rparr>"

text \<open>A template of one Friday, with an instance row of that day whose deletion flag is set.\<close>

definition deleted_override_db :: db where
  "deleted_override_db =
     base_db\<lparr> route_schedules :=
         [example_template 50 20280 (Some 20280) (Some [1, 2, 3, 4, 5, 6, 7]) (Some 7)],
       schedule_instances :=
         [(example_instance 101 20280 (Some 8) None ''Scheduled'')\<lparr> si_is_deleted := Some True \<rparr>] \<rparr>"

text \<open>
  Two templates, with owners 1 and 2. Instance 201 stands by on the Friday and departs on
  the Saturday; instance 202 has both on the Friday, and an alert of an earlier run of the
  same day, when it still departed on the Saturday, is in the table.
\<close>

definition cross_day_db :: db where
  "cross_day_db =
     base_db\<lparr> route_schedules :=
         [example_template 50 20270 None (Some [1, 2, 3, 4, 5, 6, 7]) (Some 7),
          (example_template 51 20270 None (Some [1, 2, 3, 4, 5, 6, 7]) (Some 8))
             \<lparr> rs_owner_user_id := Some 2 \<rparr>],
       schedule_instances :=
         [(example_instance 201 20280 (Some 7) None ''Scheduled'')
             \<lparr> si_standby_date := Some 20280, si_departure_date := Some 20281 \<rparr>,
          (example_instance 202 20280 (Some 8) None ''Scheduled'')
             \<lparr> si_route_schedule_id := 51,
               si_standby_date := Some 20280, si_departure_date := Some 20280 \<rparr>],
       route_alerts :=
         [\<lparr> ra_id = 900, ra_route_schedule_id = None, ra_schedule_instance_id = Some 202,
            ra_alert_type = ''TimeCrossDay'', ra_title = ''Cross-Day Schedule Detected'',
            ra_message = None, ra_severity = ''Medium'', ra_is_read = Some True,
            ra_read_at = None, ra_created_for_user = Some 2,
            ra_created_at = Some (20280 * 86400 + 60) \<rparr>] \<rparr>"

text \<open>A grant of user 2 on route 30 that was deactivated, and a clock one hour later.\<close>

definition responsibility_db :: db where
  "responsibility_db =
     base_db\<lparr> route_responsibility :=
       [\<lparr> rr_id = 300, rr_route_id = 30, rr_user_id = 2, rr_role = ''Backup'',
          rr_assigned_at = Some 1000, rr_assigned_by = None,
          rr_is_active = Some False, rr_created_at = Some 1000 \<rparr>,
        \<lparr> rr_id = 301, rr_route_id = 30, rr_user_id = 1, rr_role = ''Primary'',
          rr_assigned_at = Some 1000, rr_assigned_by = None,
          rr_is_active = Some True, rr_created_at = Some 1000 \<rparr>] \<rparr>"

text \<open>
  Sessions: a signed-in planner of the application; the service role with the settings of
  user 1; the service role with an actor that is no user; the service role with an actor
  setting that is no key.
\<close>

definition authenticated_session :: session where
  "authenticated_session =
     \<lparr> bypasses_rls = False, auth_jwt_role = Some ''Planner'',
       app_current_user_id = Text_of 1,
       app_current_user_email = Some ''planner@example.org'',
       app_client_ip = Unset, app_user_agent = None \<rparr>"

definition service_session :: session where
  "service_session = authenticated_session\<lparr> bypasses_rls := True \<rparr>"

definition stale_actor_session :: session where
  "stale_actor_session = service_session\<lparr> app_current_user_id := Text_of 99 \<rparr>"

definition malformed_actor_session :: session where
  "malformed_actor_session = service_session\<lparr> app_current_user_id := Malformed ''none'' \<rparr>"

definition new_driver :: driver where
  "new_driver = \<lparr> d_id = 12, d_driver_code = ''DRV000003'', d_name = ''Chai'' \<rparr>"

text \<open>
  Four templates of the Friday and the Saturday and their instance rows. On the Friday
  driver 7 has three confirmed rows and vehicle 9 two; the row of driver 8 is cancelled.
  The table of conflict records holds a resolved record of the Thursday and a record of
  the Friday for driver 8, from a run before the row of driver 8 was cancelled.
\<close>

definition example_vehicles :: "vehicle list" where
  "example_vehicles = [\<lparr> v_id = 9, v_vehicle_code = ''VEH000001'', v_plate_number = ''70-1234'' \<rparr>]"

definition example_record :: "uuid \<Rightarrow> date \<Rightarrow> uuid list \<Rightarrow> string \<Rightarrow> conflict_check" where
  "example_record i day sis st =
     \<lparr> cc_id = i, cc_check_date = day, cc_driver_id = Some 8, cc_vehicle_id = None,
       cc_conflicting_schedules = sis, cc_conflict_type = ''Driver Overlap'',
       cc_severity = ''Medium'', cc_status = st, cc_resolution_notes = None,
       cc_created_at = Some (day * 86400 + 60), cc_resolved_at = None \<rparr>"

definition overlap_db :: db where
  "overlap_db =
     base_db\<lparr> vehicles := example_vehicles,
       route_schedules :=
         [example_template 50 20280 (Some 20281) (Some [1, 2, 3, 4, 5, 6, 7]) (Some 7),
          example_template 51 20280 (Some 20281) (Some [1, 2, 3, 4, 5, 6, 7]) (Some 7),
          example_template 52 20280 (Some 20281) (Some [1, 2, 3, 4, 5, 6, 7]) (Some 7),
          example_template 53 20280 (Some 20281) (Some [1, 2, 3, 4, 5, 6, 7]) (Some 8)],
       schedule_instances :=
         [example_instance 101 20280 (Some 7) (Some 9) ''Confirmed'',
          (example_instance 102 20280 (Some 7) (Some 9) ''Confirmed'')\<lparr> si_route_schedule_id := 51 \<rparr>,
          (example_instance 103 20280 (Some 7) None ''Confirmed'')\<lparr> si_route_schedule_id := 52 \<rparr>,
          (example_instance 104 20280 (Some 8) (Some 9) ''Cancelled'')\<lparr> si_route_schedule_id := 53 \<rparr>,
          example_instance 105 20281 (Some 7) (Some 9) ''Confirmed''],
       conflict_checks :=
         [example_record 800 20279 [90, 91] ''Resolved'',
          example_record 801 20280 [103, 104] ''Open''] \<rparr>"

text \<open>
  Three templates of one Friday with the same default driver: without instance rows,
  and with an instance row each, of which the third leaves the driver to the template.
\<close>

definition three_defaults_db :: db where
  "three_defaults_db =
     base_db\<lparr> route_schedules :=
       [example_template 50 20280 (Some 20280) (Some [1, 2, 3, 4, 5, 6, 7]) (Some 7),
        example_template 51 20280 (Some 20280) (Some [1, 2, 3, 4, 5, 6, 7]) (Some 7),
        example_template 52 20280 (Some 20280) (Some [1, 2, 3, 4, 5, 6, 7]) (Some 7)] \<rparr>"

definition null_driver_db :: db where
  "null_driver_db =
     three_defaults_db\<lparr> schedule_instances :=
       [example_instance 101 20280 (Some 7) None ''Confirmed'',
        (example_instance 102 20280 (Some 7) None ''Confirmed'')\<lparr> si_route_schedule_id := 51 \<rparr>,
        (example_instance 103 20280 None None ''Confirmed'')\<lparr> si_route_schedule_id := 52 \<rparr>] \<rparr>"

text \<open>
  A template of one Friday with owner 1 and an instance row of that day that has no
  standby date of its own and departs on the Saturday.
\<close>

definition null_standby_db :: db where
  "null_standby_db =
     base_db\<lparr> route_schedules :=
         [example_template 50 20280 (Some 20280) (Some [1, 2, 3, 4, 5, 6, 7]) (Some 7)],
       schedule_instances :=
         [(example_instance 201 20280 (Some 7) None ''Scheduled'')
             \<lparr> si_departure_date := Some 20281 \<rparr>] \<rparr>"

section \<open>Properties of the conflict detection\<close>

lemma set_group_keys: "set (group_keys ks) = set ks"
  by (induction ks) auto

lemma distinct_group_keys: "distinct (group_keys ks)"
  by (induction ks) (auto simp: set_group_keys)

lemma filter_eq_group_keys:
  "filter (\<lambda>k. k = d) (group_keys ks) = (if d \<in> set ks then [d] else [])"
proof (induction ks)
  case Nil
  show ?case by simp
next
  case (Cons a ks)
  have comm: "filter (\<lambda>k. k = d) (filter (\<lambda>x. x \<noteq> a) (group_keys ks))
      = filter (\<lambda>x. x \<noteq> a) (filter (\<lambda>k. k = d) (group_keys ks))"
    by (simp add: conj_commute)
  show ?case
    by (simp only: group_keys.simps filter.simps comm Cons.IH) auto
qed

lemma set_not_null: "set (not_null xs) = {v. Some v \<in> set xs}"
  by (induction xs) (auto simp: not_null_def split: option.splits)

lemma length_filter_number_rows:
  "(\<And>k i. P (f k i) = Q k) \<Longrightarrow>
     length (filter P (number_rows n (map f ks))) = length (filter Q ks)"
  by (induction ks arbitrary: n) auto

lemma set_number_rows:
  "c \<in> set (number_rows n (map f ks)) \<Longrightarrow> \<exists>k\<in>set ks. \<exists>i. c = f k i"
  by (induction ks arbitrary: n) auto

lemma filter_number_rows_none:
  "(\<And>k i. \<not> P (f k i)) \<Longrightarrow> filter P (number_rows n (map f ks)) = []"
  by (induction ks arbitrary: n) auto

lemma filter_number_rows_zip:
  "(\<And>k i. P (f k i) = Q k) \<Longrightarrow>
     \<exists>js. length js = length (filter Q ks)
        \<and> filter P (number_rows n (map f ks)) = map (\<lambda>(k, i). f k i) (zip (filter Q ks) js)"
proof (induction ks arbitrary: n)
  case Nil
  show ?case by simp
next
  case (Cons k ks)
  from Cons.IH [OF Cons.prems, of "Suc n"] obtain js where
    js: "length js = length (filter Q ks)"
        "filter P (number_rows (Suc n) (map f ks)) = map (\<lambda>(k, i). f k i) (zip (filter Q ks) js)"
    by blast
  show ?case
  proof (cases "Q k")
    case True
    with js Cons.prems have
      "length (n # js) = length (filter Q (k # ks))
       \<and> filter P (number_rows n (map f (k # ks))) = map (\<lambda>(k, i). f k i) (zip (filter Q (k # ks)) (n # js))"
      by simp
    then show ?thesis by blast
  next
    case False
    with js Cons.prems show ?thesis by auto
  qed
qed

lemma filter_fst_groups:
  "distinct ks \<Longrightarrow>
     filter (\<lambda>g. fst g = d) (concat (map (\<lambda>k. if c k then [(k, G k)] else []) ks))
       = (if d \<in> set ks \<and> c d then [(d, G d)] else [])"
  by (induction ks) auto

lemma overlap_groups_filter:
  "filter (\<lambda>g. fst g = d) (overlap_groups res today sis)
     = (if 1 < length [si \<leftarrow> sis. bookable today si \<and> res si = Some d]
        then [(d, [si \<leftarrow> sis. bookable today si \<and> res si = Some d])] else [])"
proof -
  let ?rows = "[si \<leftarrow> sis. bookable today si \<and> res si \<noteq> None]"
  let ?G = "\<lambda>k. [si \<leftarrow> ?rows. res si = Some k]"
  have G: "?G k = [si \<leftarrow> sis. bookable today si \<and> res si = Some k]" for k
    by (induction sis) auto
  have mem: "d \<in> set (group_keys (not_null (map res ?rows)))" if "1 < length (?G d)"
  proof -
    from that have "?G d \<noteq> []" by auto
    then have "hd (?G d) \<in> set (?G d)" by (rule hd_in_set)
    then have "Some d \<in> set (map res ?rows)" by force
    then show ?thesis by (simp add: set_group_keys set_not_null)
  qed
  have "filter (\<lambda>g. fst g = d) (overlap_groups res today sis)
      = (if d \<in> set (group_keys (not_null (map res ?rows))) \<and> 1 < length (?G d) then [(d, ?G d)] else [])"
    unfolding overlap_groups_def Let_def
    using filter_fst_groups [OF distinct_group_keys, of d "\<lambda>k. 1 < length (?G k)" ?G "not_null (map res ?rows)"]
    by simp
  also have "\<dots> = (if 1 < length (?G d) then [(d, ?G d)] else [])"
    using mem by auto
  finally show ?thesis by (simp only: G)
qed

lemma conflict_checks_detect:
  "conflict_checks (detect_schedule_conflicts now s) =
     [c \<leftarrow> conflict_checks s. cc_check_date c \<noteq> CURRENT_DATE now]
     @ number_rows (next_uuid s)
         (map (driver_overlap_row now)
            (overlap_groups si_driver_id (CURRENT_DATE now) (schedule_instances s)))
     @ number_rows
         (next_uuid s + length (overlap_groups si_driver_id (CURRENT_DATE now) (schedule_instances s)))
         (map (vehicle_overlap_row now)
            (overlap_groups si_vehicle_id (CURRENT_DATE now) (schedule_instances s)))"
  by (simp add: detect_schedule_conflicts_def insert_conflict_checks_def Let_def)

lemma group_records:
  assumes P: "\<And>g i. P (f g i) = (fst g = k)"
    and groups: "filter (\<lambda>g. fst g = k) gs = (if 1 < length grp then [(k, grp)] else [])"
  shows "if 1 < length grp then \<exists>i. filter P (number_rows n (map f gs)) = [f (k, grp) i]
         else filter P (number_rows n (map f gs)) = []"
proof -
  from filter_number_rows_zip [of P f "\<lambda>g. fst g = k" gs n, OF P] obtain js where
    js: "length js = length (filter (\<lambda>g. fst g = k) gs)"
        "filter P (number_rows n (map f gs)) = map (\<lambda>(g, i). f g i) (zip (filter (\<lambda>g. fst g = k) gs) js)"
    by blast
  show ?thesis
  proof (cases "1 < length grp")
    case True
    with js groups obtain j where "js = [j]" by (cases js) auto
    with js groups True have "filter P (number_rows n (map f gs)) = [f (k, grp) j]" by simp
    with True show ?thesis by auto
  next
    case False
    with js groups show ?thesis by simp
  qed
qed

lemma driver_records:
  "let today = CURRENT_DATE now;
       grp = [si \<leftarrow> schedule_instances s. bookable today si \<and> si_driver_id si = Some d];
       recs = [c \<leftarrow> conflict_checks (detect_schedule_conflicts now s).
                 cc_check_date c = today \<and> cc_driver_id c = Some d]
   in if 1 < length grp then \<exists>i. recs = [driver_overlap_row now (d, grp) i] else recs = []"
proof -
  let ?today = "CURRENT_DATE now"
  let ?P = "\<lambda>c. cc_check_date c = ?today \<and> cc_driver_id c = Some d"
  let ?grp = "[si \<leftarrow> schedule_instances s. bookable ?today si \<and> si_driver_id si = Some d]"
  have a: "filter ?P [c \<leftarrow> conflict_checks s. cc_check_date c \<noteq> ?today] = []"
    by (simp add: filter_empty_conv)
  have c: "filter ?P (number_rows n (map (vehicle_overlap_row now) gs)) = []" for n gs
    by (rule filter_number_rows_none) (simp add: vehicle_overlap_row_def)
  have b: "if 1 < length ?grp
           then \<exists>i. filter ?P (number_rows n (map (driver_overlap_row now)
                        (overlap_groups si_driver_id ?today (schedule_instances s))))
                     = [driver_overlap_row now (d, ?grp) i]
           else filter ?P (number_rows n (map (driver_overlap_row now)
                        (overlap_groups si_driver_id ?today (schedule_instances s)))) = []" for n
    by (rule group_records) (simp_all add: driver_overlap_row_def overlap_groups_filter)
  show ?thesis
    unfolding Let_def conflict_checks_detect filter_append a c
    using b by simp
qed

lemma vehicle_records:
  "let today = CURRENT_DATE now;
       grp = [si \<leftarrow> schedule_instances s. bookable today si \<and> si_vehicle_id si = Some v];
       recs = [c \<leftarrow> conflict_checks (detect_schedule_conflicts now s).
                 cc_check_date c = today \<and> cc_vehicle_id c = Some v]
   in if 1 < length grp then \<exists>i. recs = [vehicle_overlap_row now (v, grp) i] else recs = []"
proof -
  let ?today = "CURRENT_DATE now"
  let ?P = "\<lambda>c. cc_check_date c = ?today \<and> cc_vehicle_id c = Some v"
  let ?grp = "[si \<leftarrow> schedule_instances s. bookable ?today si \<and> si_vehicle_id si = Some v]"
  have a: "filter ?P [c \<leftarrow> conflict_checks s. cc_check_date c \<noteq> ?today] = []"
    by (simp add: filter_empty_conv)
  have c: "filter ?P (number_rows n (map (driver_overlap_row now) gs)) = []" for n gs
    by (rule filter_number_rows_none) (simp add: driver_overlap_row_def)
  have b: "if 1 < length ?grp
           then \<exists>i. filter ?P (number_rows n (map (vehicle_overlap_row now)
                        (overlap_groups si_vehicle_id ?today (schedule_instances s))))
                     = [vehicle_overlap_row now (v, ?grp) i]
           else filter ?P (number_rows n (map (vehicle_overlap_row now)
                        (overlap_groups si_vehicle_id ?today (schedule_instances s)))) = []" for n
    by (rule group_records) (simp_all add: vehicle_overlap_row_def overlap_groups_filter)
  show ?thesis
    unfolding Let_def conflict_checks_detect filter_append a c
    using b by simp
qed

lemma bookable_filter:
  "[si \<leftarrow> sis. bookable today si \<and> res si = Some k]
     = [si \<leftarrow> sis. si_schedule_date si = today \<and> res si = Some k
          \<and> (si_status si = ''Scheduled'' \<or> si_status si = ''Confirmed'')
          \<and> si_is_deleted si = Some False]"
  by (rule filter_cong) (auto simp: bookable_def)

lemma example_today: "CURRENT_DATE example_now = 20280"
  by (simp add: CURRENT_DATE_def DATE_def example_now_def)

lemmas view_defs = schedule_overview_def template_days_def generate_series_def upto_rec_numeral
  left_join_def ncol_def col_def COALESCE_def COALESCE_value_def rule_days_def DOW_def
  overview_select_def

lemmas example_defs = base_db_def empty_db_def example_route_def example_drivers_def
  example_users_def example_template_def example_instance_def

text \<open>The example databases satisfy the constraints of the schema.\<close>

lemma overlap_db_constraints: "schedule_integrity overlap_db \<and> resource_integrity overlap_db"
  by (simp add: schedule_integrity_def resource_integrity_def instance_key_def references_def
        overlap_db_def example_vehicles_def example_defs)

lemma null_driver_db_constraints:
  "schedule_integrity three_defaults_db \<and> resource_integrity three_defaults_db
   \<and> schedule_integrity null_driver_db \<and> resource_integrity null_driver_db"
  by (simp add: schedule_integrity_def resource_integrity_def instance_key_def references_def
        null_driver_db_def three_defaults_db_def example_defs)

text \<open>
  Claim C2, as stated, fails. Three templates of one day with the same default driver
  and status Confirmed give three occurrences of that driver in the view. Without
  instance rows the detection writes no record. With an instance row for each, of which
  the third has a null \<^verbatim>\<open>driver_id\<close> and so keeps the driver of its template, the
  detection writes one record of severity Medium that references the two other rows.
\<close>

theorem detect_groups_stored_drivers_counterexample:
  "map ov_schedule_date (schedule_overview three_defaults_db) = [20280, 20280, 20280]
   \<and> map ov_driver_code (schedule_overview three_defaults_db)
       = [Some ''DRV000001'', Some ''DRV000001'', Some ''DRV000001'']
   \<and> map ov_status (schedule_overview three_defaults_db) = [''Confirmed'', ''Confirmed'', ''Confirmed'']
   \<and> CURRENT_DATE example_now = 20280
   \<and> conflict_checks (detect_schedule_conflicts example_now three_defaults_db) = []
   \<and> map ov_schedule_date (schedule_overview null_driver_db) = [20280, 20280, 20280]
   \<and> map ov_driver_code (schedule_overview null_driver_db)
       = [Some ''DRV000001'', Some ''DRV000001'', Some ''DRV000001'']
   \<and> map ov_status (schedule_overview null_driver_db) = [''Confirmed'', ''Confirmed'', ''Confirmed'']
   \<and> map conflict_record (conflict_checks (detect_schedule_conflicts example_now null_driver_db))
       = [(20280, Some 7, None, [101, 102], ''Driver Overlap'', ''Medium'', ''Open'')]"
  by (simp add: view_defs example_defs three_defaults_db_def null_driver_db_def conflict_checks_detect
        overlap_groups_def not_null_def example_today bookable_def driver_overlap_row_def
        overlap_severity_def conflict_record_def)

text \<open>
  Claim C2, amended. \<^verbatim>\<open>detect_schedule_conflicts()\<close> groups the rows of
  \<^verbatim>\<open>schedule_instances\<close> by the driver and the vehicle stored in the row. After a run on
  the date \<open>today\<close>, for every driver \<open>d\<close>: the rows grouped under \<open>d\<close> are exactly the
  rows of \<^verbatim>\<open>schedule_instances\<close> of that date with \<^verbatim>\<open>driver_id = d\<close>, status Scheduled or
  Confirmed and deletion flag false. When that group has more than one row, the
  conflict records of the date for \<open>d\<close> are exactly one record, of type Driver Overlap,
  that references all rows of the group and has severity High when the group has more than
  two rows and Medium otherwise; when the group has at most one row there is no record
  for \<open>d\<close>. The same holds for every vehicle \<open>v\<close> with type Vehicle Overlap.
\<close>

theorem detect_schedule_conflicts_groups:
  "let today = CURRENT_DATE now;
       after = conflict_checks (detect_schedule_conflicts now s);
       drv = [si \<leftarrow> schedule_instances s. si_schedule_date si = today \<and> si_driver_id si = Some d
                \<and> (si_status si = ''Scheduled'' \<or> si_status si = ''Confirmed'')
                \<and> si_is_deleted si = Some False];
       veh = [si \<leftarrow> schedule_instances s. si_schedule_date si = today \<and> si_vehicle_id si = Some v
                \<and> (si_status si = ''Scheduled'' \<or> si_status si = ''Confirmed'')
                \<and> si_is_deleted si = Some False];
       drv_recs = [c \<leftarrow> after. cc_check_date c = today \<and> cc_driver_id c = Some d];
       veh_recs = [c \<leftarrow> after. cc_check_date c = today \<and> cc_vehicle_id c = Some v]
   in (if 1 < length drv
       then \<exists>c. drv_recs = [c] \<and> cc_conflict_type c = ''Driver Overlap''
              \<and> cc_conflicting_schedules c = map si_id drv
              \<and> cc_severity c = (if 2 < length drv then ''High'' else ''Medium'')
       else drv_recs = [])
    \<and> (if 1 < length veh
       then \<exists>c. veh_recs = [c] \<and> cc_conflict_type c = ''Vehicle Overlap''
              \<and> cc_conflicting_schedules c = map si_id veh
              \<and> cc_severity c = (if 2 < length veh then ''High'' else ''Medium'')
       else veh_recs = [])"
proof -
  define today where "today = CURRENT_DATE now"
  define after where "after = conflict_checks (detect_schedule_conflicts now s)"
  define drv where "drv = [si \<leftarrow> schedule_instances s. si_schedule_date si = today \<and> si_driver_id si = Some d
                \<and> (si_status si = ''Scheduled'' \<or> si_status si = ''Confirmed'')
                \<and> si_is_deleted si = Some False]"
  define veh where "veh = [si \<leftarrow> schedule_instances s. si_schedule_date si = today \<and> si_vehicle_id si = Some v
                \<and> (si_status si = ''Scheduled'' \<or> si_status si = ''Confirmed'')
                \<and> si_is_deleted si = Some False]"
  define drv_recs where "drv_recs = [c \<leftarrow> after. cc_check_date c = today \<and> cc_driver_id c = Some d]"
  define veh_recs where "veh_recs = [c \<leftarrow> after. cc_check_date c = today \<and> cc_vehicle_id c = Some v]"
  note defs = today_def after_def drv_def veh_def drv_recs_def veh_recs_def
  have d: "if 1 < length drv then \<exists>i. drv_recs = [driver_overlap_row now (d, drv) i] else drv_recs = []"
    using driver_records [where now = now and s = s and d = d]
    unfolding Let_def bookable_filter defs .
  have v: "if 1 < length veh then \<exists>i. veh_recs = [vehicle_overlap_row now (v, veh) i] else veh_recs = []"
    using vehicle_records [where now = now and s = s and v = v]
    unfolding Let_def bookable_filter defs .
  have D: "if 1 < length drv
       then \<exists>c. drv_recs = [c] \<and> cc_conflict_type c = ''Driver Overlap''
              \<and> cc_conflicting_schedules c = map si_id drv
              \<and> cc_severity c = (if 2 < length drv then ''High'' else ''Medium'')
       else drv_recs = []"
  proof (cases "1 < length drv")
    case True
    with d obtain i where i: "drv_recs = [driver_overlap_row now (d, drv) i]" by auto
    have "\<exists>c. drv_recs = [c] \<and> cc_conflict_type c = ''Driver Overlap''
              \<and> cc_conflicting_schedules c = map si_id drv
              \<and> cc_severity c = (if 2 < length drv then ''High'' else ''Medium'')"
      by (rule exI [where x = "driver_overlap_row now (d, drv) i"])
         (simp add: i driver_overlap_row_def overlap_severity_def)
    with True show ?thesis by (simp only: if_True)
  next
    case False
    with d show ?thesis by (simp only: if_False)
  qed
  have V: "if 1 < length veh
       then \<exists>c. veh_recs = [c] \<and> cc_conflict_type c = ''Vehicle Overlap''
              \<and> cc_conflicting_schedules c = map si_id veh
              \<and> cc_severity c = (if 2 < length veh then ''High'' else ''Medium'')
       else veh_recs = []"
  proof (cases "1 < length veh")
    case True
    with v obtain i where i: "veh_recs = [vehicle_overlap_row now (v, veh) i]" by auto
    have "\<exists>c. veh_recs = [c] \<and> cc_conflict_type c = ''Vehicle Overlap''
              \<and> cc_conflicting_schedules c = map si_id veh
              \<and> cc_severity c = (if 2 < length veh then ''High'' else ''Medium'')"
      by (rule exI [where x = "vehicle_overlap_row now (v, veh) i"])
         (simp add: i vehicle_overlap_row_def overlap_severity_def)
    with True show ?thesis by (simp only: if_True)
  next
    case False
    with v show ?thesis by (simp only: if_False)
  qed
  from D V show ?thesis
    unfolding Let_def defs by (rule conjI)
qed

theorem detect_schedule_conflicts_groups_witness:
  "(\<exists>c. [c \<leftarrow> conflict_checks (detect_schedule_conflicts example_now overlap_db).
            cc_check_date c = 20280 \<and> cc_driver_id c = Some 7] = [c]
        \<and> cc_conflict_type c = ''Driver Overlap''
        \<and> cc_conflicting_schedules c = [101, 102, 103]
        \<and> cc_severity c = ''High'')
   \<and> (\<exists>c. [c \<leftarrow> conflict_checks (detect_schedule_conflicts example_now overlap_db).
            cc_check_date c = 20280 \<and> cc_vehicle_id c = Some 9] = [c]
        \<and> cc_conflict_type c = ''Vehicle Overlap''
        \<and> cc_conflicting_schedules c = [101, 102]
        \<and> cc_severity c = ''Medium'')
   \<and> [c \<leftarrow> conflict_checks overlap_db. cc_check_date c = 20280 \<and> cc_driver_id c = Some 8]
       = [example_record 801 20280 [103, 104] ''Open'']
   \<and> [c \<leftarrow> conflict_checks (detect_schedule_conflicts example_now overlap_db).
            cc_check_date c = 20280 \<and> cc_driver_id c = Some 8] = []"
proof -
  note db = overlap_db_def example_vehicles_def example_record_def base_db_def empty_db_def
    example_instance_def
  have a: "(\<exists>c. [c \<leftarrow> conflict_checks (detect_schedule_conflicts example_now overlap_db).
            cc_check_date c = 20280 \<and> cc_driver_id c = Some 7] = [c]
        \<and> cc_conflict_type c = ''Driver Overlap''
        \<and> cc_conflicting_schedules c = [101, 102, 103]
        \<and> cc_severity c = ''High'')
   \<and> (\<exists>c. [c \<leftarrow> conflict_checks (detect_schedule_conflicts example_now overlap_db).
            cc_check_date c = 20280 \<and> cc_vehicle_id c = Some 9] = [c]
        \<and> cc_conflict_type c = ''Vehicle Overlap''
        \<and> cc_conflicting_schedules c = [101, 102]
        \<and> cc_severity c = ''Medium'')"
    using detect_schedule_conflicts_groups [where now = example_now and s = overlap_db and d = 7 and v = 9]
    by (simp add: Let_def example_today db)
  have b: "[c \<leftarrow> conflict_checks overlap_db. cc_check_date c = 20280 \<and> cc_driver_id c = Some 8]
       = [example_record 801 20280 [103, 104] ''Open'']"
    by (simp add: db)
  have c: "[c \<leftarrow> conflict_checks (detect_schedule_conflicts example_now overlap_db).
            cc_check_date c = 20280 \<and> cc_driver_id c = Some 8] = []"
    using detect_schedule_conflicts_groups [where now = example_now and s = overlap_db and d = 8 and v = 9]
    by (simp add: Let_def example_today db)
  from a b c show ?thesis by (intro conjI) (elim conjE, assumption)+
qed

lemma map_conflict_record_number_rows:
  "(\<And>g i. conflict_record (f g i) = h g) \<Longrightarrow>
     map conflict_record (number_rows n (map f gs)) = map h gs"
  by (induction gs arbitrary: n) auto

lemma check_date_number_rows:
  "(\<And>g i. cc_check_date (f g i) = day) \<Longrightarrow>
     [c \<leftarrow> number_rows n (map f gs). cc_check_date c \<noteq> day] = []"
  by (induction gs arbitrary: n) auto

lemma schedule_instances_detect:
  "schedule_instances (detect_schedule_conflicts now s) = schedule_instances s"
  by (simp add: detect_schedule_conflicts_def insert_conflict_checks_def Let_def)

lemma distinct_fst_groups:
  "distinct ks \<Longrightarrow> distinct (map fst (concat (map (\<lambda>k. if c k then [(k, G k)] else []) ks)))"
  by (induction ks) (auto split: if_splits)

lemma distinct_fst_overlap_groups: "distinct (map fst (overlap_groups res today sis))"
  unfolding overlap_groups_def Let_def
  using distinct_fst_groups [OF distinct_group_keys] by simp

lemma distinct_map_by_fst:
  assumes "distinct (map fst gs)" and "\<And>g g'. h g = h g' \<Longrightarrow> fst g = fst g'"
  shows "distinct (map h gs)"
proof -
  from assms(1) have d: "distinct gs" and inj: "inj_on fst (set gs)"
    by (simp_all add: distinct_map)
  have "inj_on h (set gs)"
  proof (rule inj_onI)
    fix g g' assume g: "g \<in> set gs" "g' \<in> set gs" and h: "h g = h g'"
    from h have "fst g = fst g'" by (rule assms(2))
    with inj show "g = g'" using g by (rule inj_onD)
  qed
  with d show ?thesis by (simp add: distinct_map)
qed

lemma check_date_number_rows_all:
  "(\<And>g i. cc_check_date (f g i) = day) \<Longrightarrow>
     [c \<leftarrow> number_rows n (map f gs). cc_check_date c = day] = number_rows n (map f gs)"
  by (induction gs arbitrary: n) auto

lemma conflict_checks_detect_empty:
  "conflict_checks (detect_schedule_conflicts now (s\<lparr> conflict_checks := [] \<rparr>)) =
     number_rows (next_uuid s)
         (map (driver_overlap_row now)
            (overlap_groups si_driver_id (CURRENT_DATE now) (schedule_instances s)))
     @ number_rows
         (next_uuid s + length (overlap_groups si_driver_id (CURRENT_DATE now) (schedule_instances s)))
         (map (vehicle_overlap_row now)
            (overlap_groups si_vehicle_id (CURRENT_DATE now) (schedule_instances s)))"
  by (simp add: conflict_checks_detect)

lemma detect_replaces_today:
  "[c \<leftarrow> conflict_checks (detect_schedule_conflicts now s). cc_check_date c = CURRENT_DATE now]
     = conflict_checks (detect_schedule_conflicts now (s\<lparr> conflict_checks := [] \<rparr>))"
proof -
  let ?day = "CURRENT_DATE now"
  have old: "[c \<leftarrow> [c \<leftarrow> conflict_checks s. cc_check_date c \<noteq> ?day]. cc_check_date c = ?day] = []"
    by (simp add: filter_empty_conv)
  have new: "[c \<leftarrow> number_rows n (map (driver_overlap_row now) gs). cc_check_date c = ?day]
               = number_rows n (map (driver_overlap_row now) gs)"
    "[c \<leftarrow> number_rows n (map (vehicle_overlap_row now) gs). cc_check_date c = ?day]
               = number_rows n (map (vehicle_overlap_row now) gs)" for n gs
    by (rule check_date_number_rows_all, simp add: driver_overlap_row_def vehicle_overlap_row_def)+
  show ?thesis
    unfolding conflict_checks_detect_empty
    unfolding conflict_checks_detect filter_append old new
    by simp
qed

lemma detect_keeps_other_days:
  "[c \<leftarrow> conflict_checks (detect_schedule_conflicts now s). cc_check_date c \<noteq> CURRENT_DATE now]
     = [c \<leftarrow> conflict_checks s. cc_check_date c \<noteq> CURRENT_DATE now]"
proof -
  let ?day = "CURRENT_DATE now"
  have gone: "[c \<leftarrow> number_rows n (map (driver_overlap_row now) gs). cc_check_date c \<noteq> ?day] = []"
    "[c \<leftarrow> number_rows n (map (vehicle_overlap_row now) gs). cc_check_date c \<noteq> ?day] = []" for n gs
    by (rule check_date_number_rows, simp add: driver_overlap_row_def vehicle_overlap_row_def)+
  show ?thesis
    unfolding conflict_checks_detect filter_append gone
    by simp
qed

lemma detect_no_duplicates:
  "distinct (map conflict_record
     (conflict_checks (detect_schedule_conflicts now (s\<lparr> conflict_checks := [] \<rparr>))))"
proof -
  let ?day = "CURRENT_DATE now"
  let ?DG = "overlap_groups si_driver_id ?day (schedule_instances s)"
  let ?VG = "overlap_groups si_vehicle_id ?day (schedule_instances s)"
  let ?hd = "\<lambda>g. conflict_record (driver_overlap_row now g 0)"
  let ?hv = "\<lambda>g. conflict_record (vehicle_overlap_row now g 0)"
  have d: "map conflict_record (number_rows n (map (driver_overlap_row now) gs)) = map ?hd gs" for n gs
    by (rule map_conflict_record_number_rows) (simp add: conflict_record_def driver_overlap_row_def)
  have v: "map conflict_record (number_rows n (map (vehicle_overlap_row now) gs)) = map ?hv gs" for n gs
    by (rule map_conflict_record_number_rows) (simp add: conflict_record_def vehicle_overlap_row_def)
  have dd: "distinct (map ?hd ?DG)"
    by (rule distinct_map_by_fst [OF distinct_fst_overlap_groups])
       (simp add: conflict_record_def driver_overlap_row_def)
  have dv: "distinct (map ?hv ?VG)"
    by (rule distinct_map_by_fst [OF distinct_fst_overlap_groups])
       (simp add: conflict_record_def vehicle_overlap_row_def)
  have disj: "?hd g \<noteq> ?hv g'" for g g'
    by (simp add: conflict_record_def driver_overlap_row_def vehicle_overlap_row_def)
  have "set (map ?hd ?DG) \<inter> set (map ?hv ?VG) = {}"
  proof (rule ccontr)
    assume "set (map ?hd ?DG) \<inter> set (map ?hv ?VG) \<noteq> {}"
    then obtain x where "x \<in> set (map ?hd ?DG)" "x \<in> set (map ?hv ?VG)" by blast
    then obtain g g' where "x = ?hd g" "x = ?hv g'" unfolding set_map by blast
    with disj [of g g'] show False by simp
  qed
  with dd dv show ?thesis
    unfolding conflict_checks_detect_empty map_append d v
    by simp
qed

text \<open>Two runs in succession on the same date.\<close>

lemma detect_twice:
  assumes "CURRENT_DATE now2 = CURRENT_DATE now1"
  shows "map conflict_record (conflict_checks (detect_schedule_conflicts now2 (detect_schedule_conflicts now1 s)))
         = map conflict_record (conflict_checks (detect_schedule_conflicts now1 s))"
proof -
  let ?day = "CURRENT_DATE now1"
  let ?DG = "overlap_groups si_driver_id ?day (schedule_instances s)"
  let ?VG = "overlap_groups si_vehicle_id ?day (schedule_instances s)"
  have d: "map conflict_record (number_rows n (map (driver_overlap_row now2) gs))
         = map (\<lambda>g. conflict_record (driver_overlap_row now1 g 0)) gs"
    "map conflict_record (number_rows n (map (driver_overlap_row now1) gs))
         = map (\<lambda>g. conflict_record (driver_overlap_row now1 g 0)) gs" for n gs
    by (rule map_conflict_record_number_rows,
        simp add: conflict_record_def driver_overlap_row_def assms)+
  have v: "map conflict_record (number_rows n (map (vehicle_overlap_row now2) gs))
         = map (\<lambda>g. conflict_record (vehicle_overlap_row now1 g 0)) gs"
    "map conflict_record (number_rows n (map (vehicle_overlap_row now1) gs))
         = map (\<lambda>g. conflict_record (vehicle_overlap_row now1 g 0)) gs" for n gs
    by (rule map_conflict_record_number_rows,
        simp add: conflict_record_def vehicle_overlap_row_def assms)+
  have gone: "[c \<leftarrow> number_rows n (map (driver_overlap_row now1) gs). cc_check_date c \<noteq> ?day] = []"
    "[c \<leftarrow> number_rows n (map (vehicle_overlap_row now1) gs). cc_check_date c \<noteq> ?day] = []" for n gs
    by (rule check_date_number_rows, simp add: driver_overlap_row_def vehicle_overlap_row_def)+
  have kept: "[c \<leftarrow> [c \<leftarrow> conflict_checks s. cc_check_date c \<noteq> ?day]. cc_check_date c \<noteq> ?day]
      = [c \<leftarrow> conflict_checks s. cc_check_date c \<noteq> ?day]"
    by simp
  show ?thesis
    unfolding conflict_checks_detect [of now2] schedule_instances_detect assms
    unfolding conflict_checks_detect [of now1] filter_append gone kept
    by (simp only: map_append d v append_Nil2)
qed

text \<open>
  Claim C3. A run of \<^verbatim>\<open>detect_schedule_conflicts()\<close> replaces the conflict records of
  its date: whatever records of the date the table held before, the records of the date
  after the run are exactly those that the run writes into an empty table, so no earlier
  record of the date is left; the records of other dates are untouched; and the run writes
  no record twice. A second run in succession on the same date, with no other change to
  the database in between, leaves the same conflict records as the first run alone. The
  records of two runs are compared by \<open>conflict_record\<close>, that is by date, resource,
  referenced instances, type, severity and status; the generated key \<^verbatim>\<open>id\<close> and the
  time stamp \<^verbatim>\<open>created_at\<close> of a re-inserted row are new.
\<close>

theorem detect_schedule_conflicts_replaces:
  assumes "CURRENT_DATE now2 = CURRENT_DATE now1"
  shows "let today = CURRENT_DATE now1;
             first = detect_schedule_conflicts now1 s;
             second = detect_schedule_conflicts now2 first;
             fresh = detect_schedule_conflicts now1 (s\<lparr> conflict_checks := [] \<rparr>)
         in [c \<leftarrow> conflict_checks first. cc_check_date c = today] = conflict_checks fresh
          \<and> [c \<leftarrow> conflict_checks first. cc_check_date c \<noteq> today]
              = [c \<leftarrow> conflict_checks s. cc_check_date c \<noteq> today]
          \<and> distinct (map conflict_record (conflict_checks fresh))
          \<and> map conflict_record (conflict_checks second) = map conflict_record (conflict_checks first)"
  unfolding Let_def
  by (intro conjI detect_replaces_today detect_keeps_other_days detect_no_duplicates
        detect_twice [OF assms])

theorem detect_schedule_conflicts_replaces_witness:
  "CURRENT_DATE (example_now + 60) = CURRENT_DATE example_now
   \<and> map conflict_record (conflict_checks overlap_db)
       = [(20279, Some 8, None, [90, 91], ''Driver Overlap'', ''Medium'', ''Resolved''),
          (20280, Some 8, None, [103, 104], ''Driver Overlap'', ''Medium'', ''Open'')]
   \<and> map conflict_record (conflict_checks (detect_schedule_conflicts example_now overlap_db))
       = [(20279, Some 8, None, [90, 91], ''Driver Overlap'', ''Medium'', ''Resolved''),
          (20280, Some 7, None, [101, 102, 103], ''Driver Overlap'', ''High'', ''Open''),
          (20280, None, Some 9, [101, 102], ''Vehicle Overlap'', ''Medium'', ''Open'')]
   \<and> map conflict_record (conflict_checks
         (detect_schedule_conflicts (example_now + 60)
            (detect_schedule_conflicts example_now overlap_db)))
       = [(20279, Some 8, None, [90, 91], ''Driver Overlap'', ''Medium'', ''Resolved''),
          (20280, Some 7, None, [101, 102, 103], ''Driver Overlap'', ''High'', ''Open''),
          (20280, None, Some 9, [101, 102], ''Vehicle Overlap'', ''Medium'', ''Open'')]"
proof -
  note db = overlap_db_def example_vehicles_def example_record_def base_db_def empty_db_def
    example_instance_def
  have day: "CURRENT_DATE (example_now + 60) = CURRENT_DATE example_now"
    by (simp add: CURRENT_DATE_def DATE_def example_now_def)
  note inst = detect_schedule_conflicts_replaces [OF day, of overlap_db, unfolded Let_def example_today]
  have before: "map conflict_record (conflict_checks overlap_db)
       = [(20279, Some 8, None, [90, 91], ''Driver Overlap'', ''Medium'', ''Resolved''),
          (20280, Some 8, None, [103, 104], ''Driver Overlap'', ''Medium'', ''Open'')]"
    by (simp add: db conflict_record_def)
  have fresh: "map conflict_record
         (conflict_checks (detect_schedule_conflicts example_now (overlap_db\<lparr> conflict_checks := [] \<rparr>)))
       = [(20280, Some 7, None, [101, 102, 103], ''Driver Overlap'', ''High'', ''Open''),
          (20280, None, Some 9, [101, 102], ''Vehicle Overlap'', ''Medium'', ''Open'')]"
    by (simp add: conflict_checks_detect example_today db overlap_groups_def bookable_def
          not_null_def driver_overlap_row_def vehicle_overlap_row_def overlap_severity_def
          conflict_record_def)
  let ?first = "conflict_checks (detect_schedule_conflicts example_now overlap_db)"
  have split: "map conflict_record ?first
       = map conflict_record [c \<leftarrow> conflict_checks overlap_db. cc_check_date c \<noteq> 20280]
         @ map conflict_record [c \<leftarrow> ?first. cc_check_date c = 20280]"
    by (simp add: conflict_checks_detect example_today db overlap_groups_def bookable_def
          not_null_def driver_overlap_row_def vehicle_overlap_row_def)
  from inst have today: "[c \<leftarrow> ?first. cc_check_date c = 20280]
       = conflict_checks (detect_schedule_conflicts example_now (overlap_db\<lparr> conflict_checks := [] \<rparr>))"
    by (rule conjunct1)
  have first: "map conflict_record ?first
       = [(20279, Some 8, None, [90, 91], ''Driver Overlap'', ''Medium'', ''Resolved''),
          (20280, Some 7, None, [101, 102, 103], ''Driver Overlap'', ''High'', ''Open''),
          (20280, None, Some 9, [101, 102], ''Vehicle Overlap'', ''Medium'', ''Open'')]"
    unfolding split today fresh by (simp add: db conflict_record_def)
  from inst have "map conflict_record (conflict_checks
         (detect_schedule_conflicts (example_now + 60)
            (detect_schedule_conflicts example_now overlap_db)))
       = map conflict_record ?first"
    by (elim conjE)
  with first have second: "map conflict_record (conflict_checks
         (detect_schedule_conflicts (example_now + 60)
            (detect_schedule_conflicts example_now overlap_db)))
       = [(20279, Some 8, None, [90, 91], ''Driver Overlap'', ''Medium'', ''Resolved''),
          (20280, Some 7, None, [101, 102, 103], ''Driver Overlap'', ''High'', ''Open''),
          (20280, None, Some 9, [101, 102], ''Vehicle Overlap'', ''Medium'', ''Open'')]"
    by simp
  show ?thesis
    by (intro conjI day before first second)
qed

section \<open>Properties of the view and of what the detection reads\<close>

lemma overlap_groups_members:
  assumes "g \<in> set (overlap_groups res today sis)" and "si \<in> set (snd g)"
  shows "si \<in> set sis \<and> bookable today si \<and> res si = Some (fst g)"
  using assms by (auto simp: overlap_groups_def Let_def split: if_splits)

lemma set_number_rows_map:
  "c \<in> set (number_rows n (map f gs)) \<Longrightarrow> \<exists>g\<in>set gs. \<exists>i. c = f g i"
  by (induction gs arbitrary: n) auto

text \<open>
  Claim C1, as stated, fails: two templates with the same default driver on the same day
  and no row in \<^verbatim>\<open>schedule_instances\<close> give two rows of the view with that driver, both
  from the template default, and the detection records no conflict.
\<close>

theorem detect_ignores_template_defaults_counterexample:
  "map ov_schedule_id (schedule_overview defaults_only_db) = [50, 51]
   \<and> map ov_schedule_date (schedule_overview defaults_only_db) = [20280, 20280]
   \<and> map ov_driver_code (schedule_overview defaults_only_db) = [Some ''DRV000001'', Some ''DRV000001'']
   \<and> map ov_has_override (schedule_overview defaults_only_db) = [False, False]
   \<and> CURRENT_DATE example_now = 20280
   \<and> conflict_checks (detect_schedule_conflicts example_now defaults_only_db) = []"
  by (simp add: view_defs example_defs defaults_only_db_def conflict_checks_detect
        overlap_groups_def not_null_def example_today)

text \<open>
  Claim C1, amended. \<^verbatim>\<open>detect_schedule_conflicts()\<close> has no date parameter and works on
  the current date. Its records do not depend on the templates, routes, drivers or
  vehicles: it reads \<^verbatim>\<open>schedule_instances\<close> only. Every instance that a record of the
  date references is a row of \<^verbatim>\<open>schedule_instances\<close> of that date whose own
  \<^verbatim>\<open>driver_id\<close> (for a driver record) or \<^verbatim>\<open>vehicle_id\<close> (for a vehicle record) is set and
  is the resource of the record; a template default never takes part.
\<close>

theorem detect_schedule_conflicts_reads_instances:
  "conflict_checks (detect_schedule_conflicts now
       (s\<lparr> route_schedules := ts, routes := rts, drivers := ds, vehicles := vs \<rparr>))
     = conflict_checks (detect_schedule_conflicts now s)
   \<and> (\<forall>c \<in> set (conflict_checks (detect_schedule_conflicts now s)).
         cc_check_date c = CURRENT_DATE now \<longrightarrow>
         (\<forall>i \<in> set (cc_conflicting_schedules c).
            \<exists>si \<in> set (schedule_instances s).
               si_id si = i \<and> si_schedule_date si = CURRENT_DATE now
               \<and> (si_driver_id si \<noteq> None \<and> si_driver_id si = cc_driver_id c
                  \<or> si_vehicle_id si \<noteq> None \<and> si_vehicle_id si = cc_vehicle_id c)))"
proof (intro conjI ballI impI)
  show "conflict_checks (detect_schedule_conflicts now
       (s\<lparr> route_schedules := ts, routes := rts, drivers := ds, vehicles := vs \<rparr>))
     = conflict_checks (detect_schedule_conflicts now s)"
    by (simp add: conflict_checks_detect)
next
  fix c i
  let ?today = "CURRENT_DATE now"
  assume c: "c \<in> set (conflict_checks (detect_schedule_conflicts now s))"
    and day: "cc_check_date c = ?today"
    and i: "i \<in> set (cc_conflicting_schedules c)"
  from c day consider
      (drv) "c \<in> set (number_rows (next_uuid s) (map (driver_overlap_row now)
                (overlap_groups si_driver_id ?today (schedule_instances s))))"
    | (veh) "c \<in> set (number_rows
                (next_uuid s + length (overlap_groups si_driver_id ?today (schedule_instances s)))
                (map (vehicle_overlap_row now)
                   (overlap_groups si_vehicle_id ?today (schedule_instances s))))"
    by (auto simp: conflict_checks_detect)
  then show "\<exists>si \<in> set (schedule_instances s).
               si_id si = i \<and> si_schedule_date si = ?today
               \<and> (si_driver_id si \<noteq> None \<and> si_driver_id si = cc_driver_id c
                  \<or> si_vehicle_id si \<noteq> None \<and> si_vehicle_id si = cc_vehicle_id c)"
  proof cases
    case drv
    then obtain g k where g: "g \<in> set (overlap_groups si_driver_id ?today (schedule_instances s))"
      and ck: "c = driver_overlap_row now g k"
      by (blast dest: set_number_rows_map)
    from i ck obtain si where si: "si \<in> set (snd g)" "si_id si = i"
      by (auto simp: driver_overlap_row_def)
    from overlap_groups_members [OF g si(1)] si(2) ck show ?thesis
      by (auto simp: driver_overlap_row_def bookable_def)
  next
    case veh
    then obtain g k where g: "g \<in> set (overlap_groups si_vehicle_id ?today (schedule_instances s))"
      and ck: "c = vehicle_overlap_row now g k"
      by (blast dest: set_number_rows_map)
    from i ck obtain si where si: "si \<in> set (snd g)" "si_id si = i"
      by (auto simp: vehicle_overlap_row_def)
    from overlap_groups_members [OF g si(1)] si(2) ck show ?thesis
      by (auto simp: vehicle_overlap_row_def bookable_def)
  qed
qed

theorem detect_schedule_conflicts_reads_instances_witness:
  "conflict_checks (detect_schedule_conflicts example_now
       (three_bookings_db\<lparr> route_schedules := route_schedules defaults_only_db,
           routes := [], drivers := [], vehicles := [] \<rparr>))
     = conflict_checks (detect_schedule_conflicts example_now three_bookings_db)
   \<and> (\<exists>c \<in> set (conflict_checks (detect_schedule_conflicts example_now three_bookings_db)).
         cc_check_date c = CURRENT_DATE example_now
         \<and> cc_driver_id c = Some 7
         \<and> 103 \<in> set (cc_conflicting_schedules c)
         \<and> (\<exists>si \<in> set (schedule_instances three_bookings_db).
               si_id si = 103 \<and> si_schedule_date si = CURRENT_DATE example_now
               \<and> (si_driver_id si \<noteq> None \<and> si_driver_id si = cc_driver_id c
                  \<or> si_vehicle_id si \<noteq> None \<and> si_vehicle_id si = cc_vehicle_id c)))"
proof -
  define c where "c = driver_overlap_row example_now
     (7, [example_instance 101 20280 (Some 7) (Some 9) ''Confirmed'',
          example_instance 102 20280 (Some 7) (Some 9) ''Confirmed'',
          example_instance 103 20280 (Some 7) None ''Confirmed'']) 1000"
  have mem: "c \<in> set (conflict_checks (detect_schedule_conflicts example_now three_bookings_db))"
    by (simp add: c_def conflict_checks_detect example_today three_bookings_db_def empty_db_def
          overlap_groups_def bookable_def not_null_def example_instance_def)
  have c: "cc_check_date c = CURRENT_DATE example_now" "cc_driver_id c = Some 7"
    "103 \<in> set (cc_conflicting_schedules c)"
    by (simp_all add: c_def driver_overlap_row_def example_instance_def)
  note inst = detect_schedule_conflicts_reads_instances
    [where now = example_now and s = three_bookings_db
       and ts = "route_schedules defaults_only_db" and rts = "[]" and ds = "[]" and vs = "[]"]
  from inst have first: "conflict_checks (detect_schedule_conflicts example_now
       (three_bookings_db\<lparr> route_schedules := route_schedules defaults_only_db,
           routes := [], drivers := [], vehicles := [] \<rparr>))
     = conflict_checks (detect_schedule_conflicts example_now three_bookings_db)"
    by (rule conjunct1)
  from inst mem c(1) c(3) have "\<exists>si \<in> set (schedule_instances three_bookings_db).
               si_id si = 103 \<and> si_schedule_date si = CURRENT_DATE example_now
               \<and> (si_driver_id si \<noteq> None \<and> si_driver_id si = cc_driver_id c
                  \<or> si_vehicle_id si \<noteq> None \<and> si_vehicle_id si = cc_vehicle_id c)"
    by blast
  with mem c first show ?thesis by blast
qed

subsection \<open>What a row of the view is\<close>

lemma left_join_cases:
  "x \<in> set (left_join ms) \<longleftrightarrow> (ms = [] \<and> x = None) \<or> (\<exists>m \<in> set ms. x = Some m)"
  by (auto simp: left_join_def)

text \<open>The days of a template: from its start date to its end date, or for one year.\<close>

lemma template_days_range:
  "d \<in> set (template_days rs) \<longleftrightarrow>
     rs_start_date rs \<le> d
     \<and> d \<le> (case rs_end_date rs of None \<Rightarrow> plus_one_year (rs_start_date rs) | Some e \<Rightarrow> e)"
  by (auto simp: template_days_def generate_series_def COALESCE_value_def split: option.splits)

text \<open>
  Every row of the view is a day of a confirmed or changed template, and the day of the
  week of the day, as \<^verbatim>\<open>EXTRACT(DOW ...)\<close> numbers it, is in the rule of the template.
\<close>

lemma schedule_overview_row_source:
  assumes "row \<in> set (schedule_overview s)"
  shows "\<exists>rs \<in> set (route_schedules s).
           ov_schedule_id row = rs_id rs
           \<and> (rs_status rs = ''Confirmed'' \<or> rs_status rs = ''Changed'')
           \<and> ov_schedule_date row \<in> set (template_days rs)
           \<and> DOW (ov_schedule_date row) \<in> set (rule_days rs)"
  using assms by (auto simp: schedule_overview_def overview_select_def split: if_splits)

text \<open>
  When every rule is written as the comment of the column has it, with the days 1
  (Monday) to 7 (Sunday), no row of the view is a Sunday.
\<close>

lemma schedule_overview_no_sunday:
  assumes "row \<in> set (schedule_overview s)"
    and "\<forall>rs \<in> set (route_schedules s). \<forall>k \<in> set (rule_days rs). 1 \<le> k \<and> k \<le> 7"
  shows "DOW (ov_schedule_date row) \<noteq> 0"
proof -
  from schedule_overview_row_source [OF assms(1)] obtain rs where
    "rs \<in> set (route_schedules s)" "DOW (ov_schedule_date row) \<in> set (rule_days rs)"
    by blast
  with assms(2) have "1 \<le> DOW (ov_schedule_date row)" by blast
  then show ?thesis by simp
qed

text \<open>
  The merge of a day. Either a row of \<^verbatim>\<open>schedule_instances\<close> of the template and the
  day that is not deleted is joined: then the times and dates of the row are those of
  the instance where it has them and those of the template otherwise, the status is the
  status of the instance, and the driver is the driver of the instance when it names
  one, else the default driver. Or there is no such row, and the day has the values of
  the template.
\<close>

lemma schedule_overview_merge:
  assumes "row \<in> set (schedule_overview s)"
  shows "\<exists>rs \<in> set (route_schedules s).
           ov_schedule_id row = rs_id rs
           \<and> ((\<exists>si \<in> set (schedule_instances s).
                  si_route_schedule_id si = rs_id rs
                  \<and> si_schedule_date si = ov_schedule_date row
                  \<and> si_is_deleted si = Some False
                  \<and> ov_has_override row
                  \<and> ov_standby_time row = COALESCE (si_standby_time si) (rs_standby_time rs)
                  \<and> ov_departure_time row = COALESCE (si_departure_time si) (rs_departure_time rs)
                  \<and> ov_standby_date row = COALESCE_value (si_standby_date si) (ov_schedule_date row)
                  \<and> ov_departure_date row = COALESCE_value (si_departure_date si) (ov_schedule_date row)
                  \<and> ov_status row = si_status si
                  \<and> (driver_code_of s (si_driver_id si) (ov_driver_code row)
                     \<or> (\<forall>d \<in> set (drivers s). si_driver_id si \<noteq> Some (d_id d))
                        \<and> (driver_code_of s (rs_default_driver_id rs) (ov_driver_code row)
                           \<or> (\<forall>d \<in> set (drivers s). rs_default_driver_id rs \<noteq> Some (d_id d))
                              \<and> ov_driver_code row = None)))
              \<or> (\<not> ov_has_override row
                  \<and> (\<forall>si \<in> set (schedule_instances s).
                        \<not> (si_route_schedule_id si = rs_id rs
                           \<and> si_schedule_date si = ov_schedule_date row
                           \<and> si_is_deleted si = Some False))
                  \<and> ov_standby_time row = rs_standby_time rs
                  \<and> ov_departure_time row = rs_departure_time rs
                  \<and> ov_standby_date row = ov_schedule_date row
                  \<and> ov_departure_date row = ov_schedule_date row
                  \<and> ov_status row = rs_status rs
                  \<and> (driver_code_of s (rs_default_driver_id rs) (ov_driver_code row)
                     \<or> (\<forall>d \<in> set (drivers s). rs_default_driver_id rs \<noteq> Some (d_id d))
                        \<and> ov_driver_code row = None)))"
proof -
  from assms obtain rs r c d_default v_default u_owner u_helper day si d_override v_override where
    rs: "rs \<in> set (route_schedules s)"
    and dd: "d_default \<in> set (left_join [d \<leftarrow> drivers s. rs_default_driver_id rs = Some (d_id d)])"
    and si: "si \<in> set (left_join [si \<leftarrow> schedule_instances s.
                 si_route_schedule_id si = rs_id rs \<and> si_schedule_date si = day
                 \<and> si_is_deleted si = Some False])"
    and dov: "d_override \<in> set (left_join [d \<leftarrow> drivers s. ncol si si_driver_id = Some (d_id d)])"
    and row: "row = overview_select rs r c d_default v_default u_owner u_helper day si d_override v_override"
    by (auto simp: schedule_overview_def split: if_splits)
  have default: "driver_code_of s (rs_default_driver_id rs) (col d_default d_driver_code)
        \<or> (\<forall>d \<in> set (drivers s). rs_default_driver_id rs \<noteq> Some (d_id d)) \<and> d_default = None"
    using dd by (auto simp: left_join_cases driver_code_of_def col_def filter_empty_conv)
  show ?thesis
  proof (cases si)
    case None
    with si have none: "\<forall>x \<in> set (schedule_instances s).
                        \<not> (si_route_schedule_id x = rs_id rs \<and> si_schedule_date x = day
                           \<and> si_is_deleted x = Some False)"
      by (auto simp: left_join_cases filter_empty_conv)
    from dov None have "d_override = None"
      by (auto simp: left_join_cases ncol_def)
    with None none default rs show ?thesis
      unfolding row
      by (intro bexI [of _ rs])
         (auto simp: overview_select_def ncol_def col_def COALESCE_def COALESCE_value_def)
  next
    case (Some x)
    with si have x: "x \<in> set (schedule_instances s)" "si_route_schedule_id x = rs_id rs"
      "si_schedule_date x = day" "si_is_deleted x = Some False"
      by (auto simp: left_join_cases)
    have override: "driver_code_of s (si_driver_id x) (col d_override d_driver_code)
        \<or> (\<forall>d \<in> set (drivers s). si_driver_id x \<noteq> Some (d_id d)) \<and> d_override = None"
      using dov Some
      by (auto simp: left_join_cases driver_code_of_def col_def ncol_def filter_empty_conv)
    have fields: "ov_schedule_id row = rs_id rs" "ov_schedule_date row = day" "ov_has_override row"
      "ov_standby_time row = COALESCE (si_standby_time x) (rs_standby_time rs)"
      "ov_departure_time row = COALESCE (si_departure_time x) (rs_departure_time rs)"
      "ov_status row = si_status x"
      "ov_driver_code row = COALESCE (col d_override d_driver_code) (col d_default d_driver_code)"
      unfolding row using Some
      by (simp_all add: overview_select_def ncol_def col_def COALESCE_value_def)
    have dates: "ov_standby_date row = COALESCE_value (si_standby_date x) day"
      "ov_departure_date row = COALESCE_value (si_departure_date x) day"
      unfolding row using Some by (simp_all add: overview_select_def ncol_def)
    have code: "driver_code_of s (si_driver_id x) (ov_driver_code row)
        \<or> (\<forall>d \<in> set (drivers s). si_driver_id x \<noteq> Some (d_id d))
           \<and> (driver_code_of s (rs_default_driver_id rs) (ov_driver_code row)
              \<or> (\<forall>d \<in> set (drivers s). rs_default_driver_id rs \<noteq> Some (d_id d))
                 \<and> ov_driver_code row = None)"
      using override default unfolding fields
      by (auto simp: driver_code_of_def COALESCE_def col_def)
    show ?thesis
      apply (rule bexI [OF _ rs])
      apply (rule conjI [OF fields(1)])
      apply (rule disjI1)
      apply (rule bexI [OF _ x(1)])
      using x fields dates code apply simp
      done
  qed
qed

text \<open>
  Claim C4 fails on a Sunday. The rule \<open>[1, 2, 3, 4, 5, 6, 7]\<close> holds every day of the
  week, 7 being Sunday by the comment of the column; \<^verbatim>\<open>EXTRACT(DOW ...)\<close> is 0 on a Sunday,
  which is in no rule. A confirmed template for every day, from Sunday 2025-07-13 to
  Monday 2025-07-14, has a row in the view for the Monday only.
\<close>

theorem schedule_overview_skips_sunday:
  "map rs_days_of_week (route_schedules sunday_db) = [Some [1, 2, 3, 4, 5, 6, 7]]
   \<and> map rs_status (route_schedules sunday_db) = [''Confirmed'']
   \<and> map template_days (route_schedules sunday_db) = [[20282, 20283]]
   \<and> DOW 20282 = 0
   \<and> map ov_schedule_date (schedule_overview sunday_db) = [20283]"
  by (simp add: view_defs example_defs sunday_db_def)

text \<open>
  Claim C5 fails on a deleted instance row. The join takes only rows with
  \<^verbatim>\<open>is_deleted = FALSE\<close>, so a row whose deletion flag is set is not joined, the columns of
  \<^verbatim>\<open>si\<close> are null, and the condition \<^verbatim>\<open>si.is_deleted = FALSE OR si.is_deleted IS NULL\<close> of
  the \<^verbatim>\<open>WHERE\<close> clause holds: the day stays in the view, with the template defaults.
\<close>

theorem schedule_overview_keeps_deleted_day:
  "map si_schedule_date (schedule_instances deleted_override_db) = [20280]
   \<and> map si_is_deleted (schedule_instances deleted_override_db) = [Some True]
   \<and> map ov_schedule_date (schedule_overview deleted_override_db) = [20280]
   \<and> map ov_has_override (schedule_overview deleted_override_db) = [False]
   \<and> map ov_driver_code (schedule_overview deleted_override_db) = [Some ''DRV000001'']"
  by (simp add: view_defs example_defs deleted_override_db_def)

section \<open>Properties of the cross-day alert\<close>

lemma distinct_key_neq:
  assumes "distinct (map key (a # xs))" and "x \<in> set xs"
  shows "key x \<noteq> key a"
proof
  assume "key x = key a"
  with assms(2) have "key a \<in> key ` set xs" by (metis imageI)
  with assms(1) show False by simp
qed

lemma filter_key_unique:
  "distinct (map key xs) \<Longrightarrow> x \<in> set xs \<Longrightarrow> filter (\<lambda>y. key x = key y) xs = [x]"
proof (induction xs)
  case Nil
  then show ?case by simp
next
  case (Cons a xs)
  show ?case
  proof (cases "x = a")
    case True
    with Cons.prems have "filter (\<lambda>y. key x = key y) xs = []"
      by (auto simp: filter_empty_conv)
    with True show ?thesis by simp
  next
    case False
    with Cons.prems have x: "x \<in> set xs" by simp
    from Cons.prems(1) x have "key x \<noteq> key a" by (rule distinct_key_neq)
    with x Cons show ?thesis by simp
  qed
qed

lemma filter_concat_key:
  assumes "distinct (map key xs)" and "x0 \<in> set xs"
    and "\<And>x y. x \<in> set xs \<Longrightarrow> y \<in> set (F x) \<Longrightarrow> key' y = key x"
  shows "filter (\<lambda>y. key' y = key x0) (concat (map F xs)) = F x0"
  using assms
proof (induction xs)
  case Nil
  then show ?case by simp
next
  case (Cons a xs)
  show ?case
  proof (cases "x0 = a")
    case True
    have "filter (\<lambda>y. key' y = key x0) (F a) = F a"
      using Cons.prems(3) [of a] True by (simp add: filter_id_conv)
    moreover have "filter (\<lambda>y. key' y = key x0) (concat (map F xs)) = []"
    proof -
      have "key' y \<noteq> key a" if "x \<in> set xs" "y \<in> set (F x)" for x y
      proof -
        from that Cons.prems(3) [of x y] have "key' y = key x" by simp
        moreover from Cons.prems(1) that(1) have "key x \<noteq> key a" by (rule distinct_key_neq)
        ultimately show ?thesis by simp
      qed
      with True show ?thesis by (auto simp: filter_empty_conv)
    qed
    ultimately show ?thesis using True by simp
  next
    case False
    with Cons.prems have in_xs: "x0 \<in> set xs" by simp
    from Cons.prems(1) in_xs have neq: "key x0 \<noteq> key a" by (rule distinct_key_neq)
    have "filter (\<lambda>y. key' y = key x0) (F a) = []"
      using Cons.prems(3) [of a] neq by (auto simp: filter_empty_conv)
    moreover have "filter (\<lambda>y. key' y = key x0) (concat (map F xs)) = F x0"
      using Cons.IH in_xs Cons.prems by simp
    ultimately show ?thesis by simp
  qed
qed


lemma filter_number_rows_single:
  assumes P: "\<And>g i. P (f g i) = Q g"
    and rows: "filter Q gs = (if b then [g0] else [])"
  shows "if b then \<exists>i. filter P (number_rows n (map f gs)) = [f g0 i]
         else filter P (number_rows n (map f gs)) = []"
proof -
  from filter_number_rows_zip [of P f Q gs n, OF P] obtain js where
    js: "length js = length (filter Q gs)"
        "filter P (number_rows n (map f gs)) = map (\<lambda>(g, i). f g i) (zip (filter Q gs) js)"
    by blast
  show ?thesis
  proof (cases b)
    case True
    with js rows obtain j where "js = [j]" by (cases js) auto
    with js rows True have "filter P (number_rows n (map f gs)) = [f g0 j]" by simp
    with True show ?thesis by auto
  next
    case False
    with js rows show ?thesis by simp
  qed
qed

lemma cross_day_rows_instance:
  assumes integrity: "schedule_integrity s"
    and si0: "si0 \<in> set (schedule_instances s)"
    and rs0: "rs0 \<in> set (route_schedules s)" "rs_id rs0 = si_route_schedule_id si0"
  shows "\<exists>r0. filter (\<lambda>row. si_id (fst row) = si_id si0) (cross_day_rows today s)
           = (if si_schedule_date si0 = today
                 \<and> sql_neq (si_standby_date si0) (si_departure_date si0)
                 \<and> si_is_deleted si0 = Some False
              then [(si0, rs0, r0)] else [])"
proof -
  let ?c = "\<lambda>si. si_schedule_date si = today
                 \<and> sql_neq (si_standby_date si) (si_departure_date si)
                 \<and> si_is_deleted si = Some False"
  let ?R = "\<lambda>rs. [r \<leftarrow> routes s. rs_route_id rs = r_id r]"
  let ?T = "\<lambda>si. [rs \<leftarrow> route_schedules s. si_route_schedule_id si = rs_id rs]"
  let ?F = "\<lambda>si. concat (map (\<lambda>rs. concat (map (\<lambda>r. if ?c si then [(si, rs, r)] else []) (?R rs))) (?T si))"
  from integrity have d_si: "distinct (map si_id (schedule_instances s))"
    and d_rs: "distinct (map rs_id (route_schedules s))"
    and d_r: "distinct (map r_id (routes s))"
    and fk: "\<forall>rs \<in> set (route_schedules s). rs_route_id rs \<in> r_id ` set (routes s)"
    by (simp_all add: schedule_integrity_def)
  from fk rs0(1) obtain r0 where r0: "r0 \<in> set (routes s)" "rs_route_id rs0 = r_id r0"
    by auto
  have T: "?T si0 = [rs0]"
    using filter_key_unique [OF d_rs rs0(1)] rs0(2) by simp
  have R: "?R rs0 = [r0]"
    using filter_key_unique [OF d_r r0(1)] r0(2) by simp
  have "filter (\<lambda>row. si_id (fst row) = si_id si0) (concat (map ?F (schedule_instances s))) = ?F si0"
    by (rule filter_concat_key [OF d_si si0]) (auto split: if_splits)
  then have "filter (\<lambda>row. si_id (fst row) = si_id si0) (cross_day_rows today s) = ?F si0"
    by (simp add: cross_day_rows_def)
  also have "?F si0 = (if ?c si0 then [(si0, rs0, r0)] else [])"
    unfolding T by (simp add: R)
  finally show ?thesis by blast
qed

lemma route_alerts_detect_cross_day:
  "route_alerts (detect_cross_day_conflict now s) =
     [a \<leftarrow> route_alerts s. \<not> (ra_alert_type a = ''TimeCrossDay'' \<and> created_on (CURRENT_DATE now) a)]
     @ number_rows (next_uuid s) (map (cross_day_alert now) (cross_day_rows (CURRENT_DATE now) s))"
  by (simp add: detect_cross_day_conflict_def insert_route_alerts_def Let_def cross_day_rows_def)

text \<open>
  What the function does for one row. Let the database satisfy the key constraints, and
  let \<open>si\<close> be a row of \<^verbatim>\<open>schedule_instances\<close> with template \<open>rs\<close>. After
  \<^verbatim>\<open>detect_cross_day_conflict()\<close>, when \<open>si\<close> is of the current date, its deletion flag is
  false and its standby date and departure date are both stored and differ, the
  cross-day alerts of the day for \<open>si\<close> are exactly one alert, of type TimeCrossDay,
  addressed to the owner of the template; for every other row there is none. An alert of
  an earlier run of the same day is replaced, and the function writes no conflict record.
\<close>

lemma detect_cross_day_conflict_alerts:
  assumes "schedule_integrity s"
    and "si \<in> set (schedule_instances s)"
    and "rs \<in> set (route_schedules s)" and "rs_id rs = si_route_schedule_id si"
  shows "let s' = detect_cross_day_conflict now s;
             alerts = [a \<leftarrow> route_alerts s'.
                         ra_alert_type a = ''TimeCrossDay'' \<and> created_on (CURRENT_DATE now) a
                         \<and> ra_schedule_instance_id a = Some (si_id si)]
         in (if si_schedule_date si = CURRENT_DATE now \<and> si_is_deleted si = Some False
                \<and> (\<exists>a b. si_standby_date si = Some a \<and> si_departure_date si = Some b \<and> a \<noteq> b)
             then \<exists>a. alerts = [a] \<and> ra_created_for_user a = rs_owner_user_id rs
             else alerts = [])
            \<and> conflict_checks s' = conflict_checks s"
proof -
  let ?today = "CURRENT_DATE now"
  let ?P = "\<lambda>a. ra_alert_type a = ''TimeCrossDay'' \<and> created_on ?today a
                \<and> ra_schedule_instance_id a = Some (si_id si)"
  let ?b = "si_schedule_date si = ?today
              \<and> sql_neq (si_standby_date si) (si_departure_date si)
              \<and> si_is_deleted si = Some False"
  have b: "?b \<longleftrightarrow> si_schedule_date si = ?today \<and> si_is_deleted si = Some False
                \<and> (\<exists>a b. si_standby_date si = Some a \<and> si_departure_date si = Some b \<and> a \<noteq> b)"
    by (auto simp: sql_neq_def split: option.splits)
  from cross_day_rows_instance [OF assms, of ?today] obtain r0 where
    rows: "filter (\<lambda>row. si_id (fst row) = si_id si) (cross_day_rows ?today s)
             = (if ?b then [(si, rs, r0)] else [])"
    by blast
  have P: "?P (cross_day_alert now row i) = (si_id (fst row) = si_id si)" for row i
    by (cases row) (simp add: cross_day_alert_def created_on_def CURRENT_DATE_def)
  have kept: "filter ?P [a \<leftarrow> route_alerts s. \<not> (ra_alert_type a = ''TimeCrossDay'' \<and> created_on ?today a)] = []"
    by (simp add: filter_empty_conv)
  have new: "if ?b then \<exists>i. filter ?P (number_rows n (map (cross_day_alert now) (cross_day_rows ?today s)))
                          = [cross_day_alert now (si, rs, r0) i]
             else filter ?P (number_rows n (map (cross_day_alert now) (cross_day_rows ?today s))) = []" for n
    by (rule filter_number_rows_single [where Q = "\<lambda>row. si_id (fst row) = si_id si"]) (rule P, rule rows)
  have alerts: "if ?b then \<exists>a. filter ?P (route_alerts (detect_cross_day_conflict now s)) = [a]
                    \<and> ra_created_for_user a = rs_owner_user_id rs
                else filter ?P (route_alerts (detect_cross_day_conflict now s)) = []"
  proof (cases ?b)
    case True
    from new [of "next_uuid s"] obtain i where
      "filter ?P (number_rows (next_uuid s) (map (cross_day_alert now) (cross_day_rows ?today s)))
         = [cross_day_alert now (si, rs, r0) i]"
      unfolding if_P [OF True] by blast
    then have "filter ?P (route_alerts (detect_cross_day_conflict now s)) = [cross_day_alert now (si, rs, r0) i]"
      by (simp only: route_alerts_detect_cross_day filter_append kept append_Nil)
    moreover have "ra_created_for_user (cross_day_alert now (si, rs, r0) i) = rs_owner_user_id rs"
      by (simp add: cross_day_alert_def)
    ultimately have "\<exists>a. filter ?P (route_alerts (detect_cross_day_conflict now s)) = [a]
                    \<and> ra_created_for_user a = rs_owner_user_id rs"
      by blast
    then show ?thesis unfolding if_P [OF True] .
  next
    case False
    from new [of "next_uuid s"] have
      "filter ?P (number_rows (next_uuid s) (map (cross_day_alert now) (cross_day_rows ?today s))) = []"
      unfolding if_not_P [OF False] .
    then have "filter ?P (route_alerts (detect_cross_day_conflict now s)) = []"
      by (simp only: route_alerts_detect_cross_day filter_append kept append_Nil)
    then show ?thesis unfolding if_not_P [OF False] .
  qed
  have cc: "conflict_checks (detect_cross_day_conflict now s) = conflict_checks s"
    by (simp add: detect_cross_day_conflict_def insert_route_alerts_def Let_def)
  from alerts cc show ?thesis
    unfolding Let_def b by (rule conjI)
qed


text \<open>
  On the example, instance 201 gets its alert, and the alert that instance 202 had from
  an earlier run is gone.
\<close>

lemma detect_cross_day_conflict_example:
  "schedule_integrity cross_day_db \<and> resource_integrity cross_day_db
   \<and> map ra_schedule_instance_id (route_alerts cross_day_db) = [Some 202]
   \<and> (\<exists>a. [a \<leftarrow> route_alerts (detect_cross_day_conflict example_now cross_day_db).
               ra_alert_type a = ''TimeCrossDay'' \<and> created_on 20280 a
               \<and> ra_schedule_instance_id a = Some 201] = [a]
          \<and> ra_created_for_user a = Some 1)
   \<and> [a \<leftarrow> route_alerts (detect_cross_day_conflict example_now cross_day_db).
               ra_alert_type a = ''TimeCrossDay'' \<and> created_on 20280 a
               \<and> ra_schedule_instance_id a = Some 202] = []
   \<and> conflict_checks (detect_cross_day_conflict example_now cross_day_db) = []"
proof -
  define si1 where "si1 = schedule_instances cross_day_db ! 0"
  define si2 where "si2 = schedule_instances cross_day_db ! 1"
  define rs1 where "rs1 = route_schedules cross_day_db ! 0"
  define rs2 where "rs2 = route_schedules cross_day_db ! 1"
  note defs = si1_def si2_def rs1_def rs2_def cross_day_db_def example_defs
  have ok: "schedule_integrity cross_day_db"
    by (simp add: schedule_integrity_def cross_day_db_def example_defs)
  have m1: "si1 \<in> set (schedule_instances cross_day_db)" "rs1 \<in> set (route_schedules cross_day_db)"
    "rs_id rs1 = si_route_schedule_id si1"
    by (simp_all add: defs)
  have m2: "si2 \<in> set (schedule_instances cross_day_db)" "rs2 \<in> set (route_schedules cross_day_db)"
    "rs_id rs2 = si_route_schedule_id si2"
    by (simp_all add: defs)
  have f1: "si_id si1 = 201" "si_schedule_date si1 = 20280" "si_is_deleted si1 = Some False"
    "si_standby_date si1 = Some 20280" "si_departure_date si1 = Some 20281"
    "rs_owner_user_id rs1 = Some 1"
    by (simp_all add: defs)
  have f2: "si_id si2 = 202" "si_schedule_date si2 = 20280" "si_is_deleted si2 = Some False"
    "si_standby_date si2 = Some 20280" "si_departure_date si2 = Some 20280"
    by (simp_all add: defs)
  have cc: "conflict_checks cross_day_db = []"
    by (simp add: cross_day_db_def example_defs)
  from detect_cross_day_conflict_alerts [OF ok m1, of example_now]
  have a1: "\<exists>a. [a \<leftarrow> route_alerts (detect_cross_day_conflict example_now cross_day_db).
               ra_alert_type a = ''TimeCrossDay'' \<and> created_on 20280 a
               \<and> ra_schedule_instance_id a = Some 201] = [a]
          \<and> ra_created_for_user a = Some 1"
    and c1: "conflict_checks (detect_cross_day_conflict example_now cross_day_db) = []"
    by (simp_all add: Let_def f1 example_today cc)
  from detect_cross_day_conflict_alerts [OF ok m2, of example_now]
  have a2: "[a \<leftarrow> route_alerts (detect_cross_day_conflict example_now cross_day_db).
               ra_alert_type a = ''TimeCrossDay'' \<and> created_on 20280 a
               \<and> ra_schedule_instance_id a = Some 202] = []"
    by (simp add: Let_def f2 example_today)
  have ok2: "resource_integrity cross_day_db"
    "map ra_schedule_instance_id (route_alerts cross_day_db) = [Some 202]"
    by (simp_all add: resource_integrity_def instance_key_def references_def cross_day_db_def
          example_defs)
  from ok ok2 a1 a2 c1 show ?thesis by (intro conjI)
qed

lemma null_standby_db_constraints:
  "schedule_integrity null_standby_db \<and> resource_integrity null_standby_db"
  by (simp add: schedule_integrity_def resource_integrity_def instance_key_def references_def
        null_standby_db_def example_defs)

text \<open>
  Claim C6 fails on a row with a null date. The view reads a null \<^verbatim>\<open>standby_date\<close> or
  \<^verbatim>\<open>departure_date\<close> of an instance row as the date of the schedule, so the occurrence
  of instance 201 stands by on the Friday and departs on the Saturday. The function
  compares the stored columns with \<^verbatim>\<open>!=\<close>, which is null when one of them is null: the
  row is not selected and no alert is written.
\<close>

theorem detect_cross_day_conflict_skips_null_date:
  "map si_id (schedule_instances null_standby_db) = [201]
   \<and> map si_schedule_date (schedule_instances null_standby_db) = [20280]
   \<and> map si_is_deleted (schedule_instances null_standby_db) = [Some False]
   \<and> map si_standby_date (schedule_instances null_standby_db) = [None]
   \<and> map si_departure_date (schedule_instances null_standby_db) = [Some 20281]
   \<and> map ov_standby_date (schedule_overview null_standby_db) = [20280]
   \<and> map ov_departure_date (schedule_overview null_standby_db) = [20281]
   \<and> CURRENT_DATE example_now = 20280
   \<and> route_alerts (detect_cross_day_conflict example_now null_standby_db) = []"
  by (simp add: view_defs example_defs null_standby_db_def route_alerts_detect_cross_day
        cross_day_rows_def sql_neq_def example_today)

section \<open>Properties of the support offers\<close>

lemma find_append_fresh:
  "\<forall>x \<in> set xs. key x \<noteq> k \<Longrightarrow> key y = k \<Longrightarrow> find (\<lambda>x. key x = k) (xs @ [y]) = Some y"
  by (induction xs) auto

lemma find_map_update:
  "find (\<lambda>x. key x = k) xs = Some y \<Longrightarrow> (\<And>x. key (f x) = key x)
     \<Longrightarrow> find (\<lambda>x. key x = k) (map f xs) = Some (f y)"
  by (induction xs) (auto split: if_splits)

text \<open>
  Claim C9. When the keys of the offers in the table are keys the generator has issued
  and \<^verbatim>\<open>create_support_offer\<close> at time \<open>now\<close> returns \<open>offer_id\<close>: reading that offer
  gives a row created at \<open>now\<close> that expires at \<open>now\<close> plus 24 hours exactly, with the
  proposed driver, the proposed vehicle and the message that were passed, and status
  Pending. A sweep before the 24 hours are over does not mark it. A sweep at or after
  that time marks it; the row is still in the table, unchanged but for the status
  Expired; a later sweep does not mark it again and leaves it as it is, and no row is
  deleted.
\<close>

theorem create_support_offer_expiry:
  assumes fresh: "support_offer_integrity s"
    and created: "create_support_offer now tmpl from_user to_user drv veh msg ty s = Inr (offer_id, s1)"
    and early: "t0 < now + 24 * 3600"
    and late: "now + 24 * 3600 \<le> t1" "t1 \<le> t2"
  shows "\<exists>so. support_offer_by_id s1 offer_id = Some so
           \<and> so_created_at so = Some now
           \<and> so_expires_at so = Some (now + 24 * 3600)
           \<and> so_proposed_driver_id so = drv
           \<and> so_proposed_vehicle_id so = veh
           \<and> so_message so = msg
           \<and> so_status so = ''Pending''
           \<and> offer_id \<notin> set (fst (sweep_expired_offers t0 s1))
           \<and> (let (marked1, s2) = sweep_expired_offers t1 s1;
                   (marked2, s3) = sweep_expired_offers t2 s2
               in offer_id \<in> set marked1
                  \<and> support_offer_by_id s2 offer_id = Some (so\<lparr> so_status := ''Expired'' \<rparr>)
                  \<and> offer_id \<notin> set marked2
                  \<and> support_offer_by_id s3 offer_id = Some (so\<lparr> so_status := ''Expired'' \<rparr>)
                  \<and> length (support_offer s3) = length (support_offer s1))"
proof -
  from created obtain f t where p: "from_user = Some f" "ty = Some t"
    by (auto simp: create_support_offer_def split: option.splits)
  define so where "so =
     \<lparr> so_id = next_uuid s, so_route_schedule_id = tmpl, so_schedule_instance_id = None,
       so_from_user_id = f, so_to_user_id = to_user, so_proposed_driver_id = drv,
       so_proposed_vehicle_id = veh, so_offer_type = t, so_message = msg,
       so_priority = ''Medium'', so_status = ''Pending'',
       so_expires_at = Some (now + 24 * 3600), so_responded_at = None,
       so_response_message = None, so_created_at = Some now \<rparr>"
  from created p have oid: "offer_id = next_uuid s"
    and offers: "support_offer s1 = support_offer s @ [so]"
    by (auto simp: create_support_offer_def so_def split: if_splits)
  from fresh have others: "\<forall>x \<in> set (support_offer s). so_id x \<noteq> offer_id"
    unfolding oid support_offer_integrity_def by auto
  have so_id: "so_id so = offer_id" by (simp add: so_def oid)
  have found: "find (\<lambda>x. so_id x = offer_id) (support_offer s1) = Some so"
    unfolding offers by (rule find_append_fresh [OF others so_id])
  have fields: "so_created_at so = Some now" "so_expires_at so = Some (now + 24 * 3600)"
    "so_proposed_driver_id so = drv" "so_proposed_vehicle_id so = veh" "so_message so = msg"
    "so_status so = ''Pending''"
    by (simp_all add: so_def)
  have exp0: "\<not> offer_expired t0 so" using early by (simp add: offer_expired_def so_def)
  have exp1: "offer_expired t1 so" using late by (simp add: offer_expired_def so_def)
  have not_marked0: "offer_id \<notin> set (fst (sweep_expired_offers t0 s1))"
    using others exp0 so_id by (auto simp: sweep_expired_offers_def offers)
  let ?mark = "\<lambda>t x. if offer_expired t x then x\<lparr> so_status := ''Expired'' \<rparr> else x"
  have keep_id: "so_id (?mark t x) = so_id x" for t x by simp
  have marked1: "offer_id \<in> set (map so_id [x \<leftarrow> support_offer s1. offer_expired t1 x])"
    using exp1 so_id by (auto simp: offers)
  have found2: "find (\<lambda>x. so_id x = offer_id) (map (?mark t1) (support_offer s1))
                  = Some (so\<lparr> so_status := ''Expired'' \<rparr>)"
    using find_map_update [OF found, of "?mark t1"] exp1 by simp
  have done2: "\<not> offer_expired t2 x" if "x \<in> set (map (?mark t1) (support_offer s1))" "so_id x = offer_id" for x
  proof -
    from that(1) obtain y where y: "y \<in> set (support_offer s1)" "x = ?mark t1 y" by auto
    with that(2) have "so_id y = offer_id" by (simp split: if_splits)
    with y(1) others have "y = so" by (auto simp: offers)
    with y(2) exp1 show ?thesis by (simp add: offer_expired_def)
  qed
  have not_marked2: "offer_id \<notin> set (map so_id [x \<leftarrow> map (?mark t1) (support_offer s1). offer_expired t2 x])"
    using done2 by auto
  have found3: "find (\<lambda>x. so_id x = offer_id) (map (?mark t2) (map (?mark t1) (support_offer s1)))
                  = Some (so\<lparr> so_status := ''Expired'' \<rparr>)"
    using find_map_update [OF found2, of "?mark t2"] by (simp add: offer_expired_def)
  have sweeps: "let (marked1, s2) = sweep_expired_offers t1 s1;
                   (marked2, s3) = sweep_expired_offers t2 s2
               in offer_id \<in> set marked1
                  \<and> support_offer_by_id s2 offer_id = Some (so\<lparr> so_status := ''Expired'' \<rparr>)
                  \<and> offer_id \<notin> set marked2
                  \<and> support_offer_by_id s3 offer_id = Some (so\<lparr> so_status := ''Expired'' \<rparr>)
                  \<and> length (support_offer s3) = length (support_offer s1)"
    using marked1 found2 not_marked2 found3
    by (simp add: sweep_expired_offers_def support_offer_by_id_def Let_def)
  from found have "support_offer_by_id s1 offer_id = Some so"
    by (simp add: support_offer_by_id_def)
  with fields not_marked0 sweeps show ?thesis
    by (intro exI [of _ so] conjI)
qed


theorem create_support_offer_expiry_witness:
  "support_offer_integrity base_db
   \<and> example_now + 3600 < example_now + 24 * 3600
   \<and> example_now + 24 * 3600 \<le> example_now + 86400
   \<and> example_now + 86400 \<le> example_now + 90000
   \<and> (\<exists>s1. create_support_offer example_now None (Some 1) (Some 2) (Some 7) None
               (Some ''need a van'') (Some ''Resource'') base_db = Inr (1000, s1)
        \<and> (\<exists>so. support_offer_by_id s1 1000 = Some so
           \<and> so_created_at so = Some example_now
           \<and> so_expires_at so = Some (example_now + 24 * 3600)
           \<and> so_proposed_driver_id so = Some 7
           \<and> so_proposed_vehicle_id so = None
           \<and> so_message so = Some ''need a van''
           \<and> so_status so = ''Pending''
           \<and> 1000 \<notin> set (fst (sweep_expired_offers (example_now + 3600) s1))
           \<and> (let (marked1, s2) = sweep_expired_offers (example_now + 86400) s1;
                   (marked2, s3) = sweep_expired_offers (example_now + 90000) s2
               in 1000 \<in> set marked1
                  \<and> support_offer_by_id s2 1000 = Some (so\<lparr> so_status := ''Expired'' \<rparr>)
                  \<and> 1000 \<notin> set marked2
                  \<and> support_offer_by_id s3 1000 = Some (so\<lparr> so_status := ''Expired'' \<rparr>)
                  \<and> length (support_offer s3) = length (support_offer s1))))"
proof -
  have fresh: "support_offer_integrity base_db"
    by (simp add: support_offer_integrity_def base_db_def empty_db_def)
  have t: "example_now + 3600 < example_now + 24 * 3600"
    "example_now + 24 * 3600 \<le> example_now + 86400"
    "example_now + 86400 \<le> example_now + 90000"
    by simp_all
  have "\<exists>s1. create_support_offer example_now None (Some 1) (Some 2) (Some 7) None
               (Some ''need a van'') (Some ''Resource'') base_db = Inr (1000, s1)"
    by (simp add: create_support_offer_def references_def example_defs)
  then obtain s1 where created: "create_support_offer example_now None (Some 1) (Some 2) (Some 7) None
               (Some ''need a van'') (Some ''Resource'') base_db = Inr (1000, s1)"
    by blast
  note concl = create_support_offer_expiry [OF fresh created t]
  show ?thesis
    by (intro conjI fresh t exI [of _ s1] created concl)
qed

section \<open>Properties of the audit trigger\<close>

lemmas session_defs = authenticated_session_def service_session_def stale_actor_session_def
  malformed_actor_session_def new_driver_def

lemmas audit_defs = insert_driver_def tracked_statement_def audit_trigger_function_def
  insert_audit_log_def record_id_of_def row_text_def named_tables_def driver_jsonb_def
  current_user_info_def references_def COALESCE_def database_after_def

text \<open>
  Claim C8, as stated, fails. A signed-in user inserts a driver: the trigger's insert into
  \<^verbatim>\<open>audit_logs\<close> is refused by row level security, the statement fails, and the driver
  is not in the table. The same happens under the service role when
  \<^verbatim>\<open>app.current_user_id\<close> is the key of no user: the foreign key of \<^verbatim>\<open>audit_logs.user_id\<close>
  fails and the driver is not inserted.
\<close>

theorem audit_failure_blocks_mutation_counterexample:
  "insert_driver authenticated_session example_now new_driver base_db = Inl Insufficient_privilege
   \<and> drivers (database_after base_db
         (insert_driver authenticated_session example_now new_driver base_db)) = drivers base_db
   \<and> new_driver \<notin> set (drivers (database_after base_db
         (insert_driver authenticated_session example_now new_driver base_db)))
   \<and> insert_driver stale_actor_session example_now new_driver base_db = Inl Foreign_key_violation
   \<and> new_driver \<notin> set (drivers (database_after base_db
         (insert_driver stale_actor_session example_now new_driver base_db)))"
  by (simp add: audit_defs session_defs example_defs Let_def)

lemma tracked_statement_result:
  "tracked_statement sess now tbl op OLD NEW change s =
     (case app_client_ip sess of
        Malformed t \<Rightarrow> Inl Invalid_text_representation
      | _ \<Rightarrow>
        if \<not> bypasses_rls sess then Inl Insufficient_privilege
        else (case record_id_of tbl OLD NEW of
                None \<Rightarrow> Inl Not_null_violation
              | Some rid \<Rightarrow>
                if \<not> references (fst (current_user_info sess)) (map u_id (users (change s)))
                then Inl Foreign_key_violation
                else Inr ((change s)
                       \<lparr> audit_logs := audit_logs (change s) @
                            [\<lparr> al_id = next_uuid (change s),
                               al_table_name = tbl,
                               al_record_id = rid,
                               al_operation =
                                 (case op of INSERT \<Rightarrow> ''INSERT'' | UPDATE \<Rightarrow> ''UPDATE''
                                  | DELETE \<Rightarrow> ''DELETE''),
                               al_old_values = (case op of INSERT \<Rightarrow> None | _ \<Rightarrow> OLD),
                               al_new_values = (case op of DELETE \<Rightarrow> None | _ \<Rightarrow> NEW),
                               al_changed_fields =
                                 (case op of
                                    UPDATE \<Rightarrow> Some (case NEW of None \<Rightarrow> [] | Some n \<Rightarrow>
                                       (case OLD of None \<Rightarrow> [] | Some p \<Rightarrow> changed_fields n p))
                                  | _ \<Rightarrow> None),
                               al_user_id = fst (current_user_info sess),
                               al_user_email = snd (current_user_info sess),
                               al_ip_address =
                                 (case app_client_ip sess of Text_of a \<Rightarrow> Some a | _ \<Rightarrow> None),
                               al_user_agent = app_user_agent sess,
                               al_created_at = Some now \<rparr>],
                          next_uuid := Suc (next_uuid (change s)) \<rparr>)))"
  by (cases op; cases "app_client_ip sess")
     (simp_all add: tracked_statement_def audit_trigger_function_def insert_audit_log_def Let_def
        split: option.splits)

text \<open>
  Claim C8, amended. The audit record is written by a row trigger inside the statement of
  the mutation. The statement succeeds exactly when the insert of the audit record does:
  the role may insert into \<^verbatim>\<open>audit_logs\<close>, \<^verbatim>\<open>app.client_ip\<close> is not malformed, the record
  has an id, and the actor is null or a user. When it succeeds, the database is the
  changed one with exactly one audit record more, for the table and the actor of the
  session; when it fails, the database is as before the statement, so the mutation is
  not committed. The one failure that is tolerated is a malformed
  \<^verbatim>\<open>app.current_user_id\<close>: actor and e-mail are then recorded as null.
\<close>

theorem tracked_statement_commits_with_audit:
  "((\<exists>s'. tracked_statement sess now tbl op OLD NEW change s = Inr s') \<longleftrightarrow>
        bypasses_rls sess
        \<and> (\<forall>t. app_client_ip sess \<noteq> Malformed t)
        \<and> record_id_of tbl OLD NEW \<noteq> None
        \<and> references (fst (current_user_info sess)) (map u_id (users (change s))))
   \<and> (\<forall>s'. tracked_statement sess now tbl op OLD NEW change s = Inr s' \<longrightarrow>
         (\<exists>a. audit_logs s' = audit_logs (change s) @ [a]
              \<and> al_table_name a = tbl
              \<and> al_user_id a = fst (current_user_info sess)
              \<and> al_user_email a = snd (current_user_info sess))
         \<and> s'\<lparr> audit_logs := audit_logs (change s), next_uuid := next_uuid (change s) \<rparr> = change s)
   \<and> (\<forall>e. tracked_statement sess now tbl op OLD NEW change s = Inl e \<longrightarrow>
         database_after s (tracked_statement sess now tbl op OLD NEW change s) = s)
   \<and> (\<forall>t. app_current_user_id sess = Malformed t \<longrightarrow> current_user_info sess = (None, None))"
proof (intro conjI allI impI)
  show "(\<exists>s'. tracked_statement sess now tbl op OLD NEW change s = Inr s') \<longleftrightarrow>
        bypasses_rls sess
        \<and> (\<forall>t. app_client_ip sess \<noteq> Malformed t)
        \<and> record_id_of tbl OLD NEW \<noteq> None
        \<and> references (fst (current_user_info sess)) (map u_id (users (change s)))"
    unfolding tracked_statement_result
    by (cases "app_client_ip sess") (auto split: option.splits)
next
  fix s'
  assume r: "tracked_statement sess now tbl op OLD NEW change s = Inr s'"
  from r show "\<exists>a. audit_logs s' = audit_logs (change s) @ [a]
              \<and> al_table_name a = tbl
              \<and> al_user_id a = fst (current_user_info sess)
              \<and> al_user_email a = snd (current_user_info sess)"
    unfolding tracked_statement_result
    by (cases "app_client_ip sess") (auto split: option.splits if_splits)
  from r show "s'\<lparr> audit_logs := audit_logs (change s), next_uuid := next_uuid (change s) \<rparr> = change s"
    unfolding tracked_statement_result
    by (cases "app_client_ip sess") (auto split: option.splits if_splits)
next
  fix e
  assume "tracked_statement sess now tbl op OLD NEW change s = Inl e"
  then show "database_after s (tracked_statement sess now tbl op OLD NEW change s) = s"
    by (simp add: database_after_def)
next
  fix t
  assume "app_current_user_id sess = Malformed t"
  then show "current_user_info sess = (None, None)"
    by (simp add: current_user_info_def)
qed


theorem tracked_statement_commits_with_audit_witness:
  "app_current_user_id malformed_actor_session = Malformed ''none''
   \<and> (\<exists>s'. insert_driver malformed_actor_session example_now new_driver base_db = Inr s'
          \<and> drivers s' = drivers base_db @ [new_driver]
          \<and> (\<exists>a. audit_logs s' = [a] \<and> al_table_name a = ''drivers'' \<and> al_user_id a = None
                 \<and> al_user_email a = None))"
proof -
  let ?change = "\<lambda>s. s\<lparr> drivers := drivers s @ [new_driver] \<rparr>"
  note inst = tracked_statement_commits_with_audit
    [where sess = malformed_actor_session and now = example_now and tbl = "''drivers''"
       and op = INSERT and OLD = None and NEW = "Some (driver_jsonb new_driver)"
       and change = ?change and s = base_db]
  have m: "app_current_user_id malformed_actor_session = Malformed ''none''"
    by (simp add: session_defs)
  with inst have actor: "current_user_info malformed_actor_session = (None, None)"
    by blast
  have ok: "bypasses_rls malformed_actor_session"
    "\<forall>t. app_client_ip malformed_actor_session \<noteq> Malformed t"
    "record_id_of ''drivers'' None (Some (driver_jsonb new_driver)) \<noteq> None"
    by (simp_all add: session_defs record_id_of_def named_tables_def row_text_def driver_jsonb_def
          COALESCE_def)
  have fk: "references (fst (current_user_info malformed_actor_session)) (map u_id (users (?change base_db)))"
    unfolding actor by (simp add: references_def)
  from inst ok fk obtain s' where
    s': "tracked_statement malformed_actor_session example_now ''drivers'' INSERT None
           (Some (driver_jsonb new_driver)) ?change base_db = Inr s'"
    by blast
  with inst obtain a where a: "audit_logs s' = audit_logs (?change base_db) @ [a]"
      "al_table_name a = ''drivers''" "al_user_id a = fst (current_user_info malformed_actor_session)"
      "al_user_email a = snd (current_user_info malformed_actor_session)"
    and rest: "s'\<lparr> audit_logs := audit_logs (?change base_db), next_uuid := next_uuid (?change base_db) \<rparr>
                 = ?change base_db"
    by blast
  from rest have "drivers (s'\<lparr> audit_logs := audit_logs (?change base_db),
                     next_uuid := next_uuid (?change base_db) \<rparr>) = drivers (?change base_db)"
    by (rule arg_cong)
  then have d: "drivers s' = drivers base_db @ [new_driver]" by simp
  from a have logs: "\<exists>a. audit_logs s' = [a] \<and> al_table_name a = ''drivers'' \<and> al_user_id a = None
      \<and> al_user_email a = None"
    by (simp add: actor base_db_def empty_db_def)
  from s' have call: "insert_driver malformed_actor_session example_now new_driver base_db = Inr s'"
    by (simp add: insert_driver_def)
  show ?thesis
    by (rule conjI [OF m], rule exI [of _ s'], intro conjI call d logs)
qed

section \<open>Properties of the responsibility upsert\<close>

lemma find_key_unique:
  "distinct (map key xs) \<Longrightarrow> x \<in> set xs \<Longrightarrow> find (\<lambda>y. key y = key x) xs = Some x"
proof (induction xs)
  case Nil
  then show ?case by simp
next
  case (Cons a xs)
  show ?case
  proof (cases "x = a")
    case True
    then show ?thesis by simp
  next
    case False
    with Cons.prems have x: "x \<in> set xs" by simp
    from Cons.prems(1) x have "key x \<noteq> key a" by (rule distinct_key_neq)
    with x Cons show ?thesis by auto
  qed
qed

lemma same_grant_key: "same_grant route usr role rr \<longleftrightarrow> grant_key rr = (route, usr, role)"
  by (auto simp: same_grant_def grant_key_def)

text \<open>The trigger of a statement of a session whose audit record can be written.\<close>

lemma tracked_statement_admitted:
  assumes "audit_admitted sess (change s)" and "record_id_of tbl OLD NEW = Some rid"
  shows "\<exists>entry. tracked_statement sess now tbl op OLD NEW change s
             = Inr ((change s)\<lparr> audit_logs := audit_logs (change s) @ [entry],
                               next_uuid := Suc (next_uuid (change s)) \<rparr>)
           \<and> al_table_name entry = tbl \<and> al_record_id entry = rid
           \<and> al_operation entry
               = (case op of INSERT \<Rightarrow> ''INSERT'' | UPDATE \<Rightarrow> ''UPDATE'' | DELETE \<Rightarrow> ''DELETE'')
           \<and> al_user_id entry = fst (current_user_info sess)"
proof -
  let ?entry = "\<lparr> al_id = next_uuid (change s),
                   al_table_name = tbl,
                   al_record_id = rid,
                   al_operation =
                     (case op of INSERT \<Rightarrow> ''INSERT'' | UPDATE \<Rightarrow> ''UPDATE'' | DELETE \<Rightarrow> ''DELETE''),
                   al_old_values = (case op of INSERT \<Rightarrow> None | _ \<Rightarrow> OLD),
                   al_new_values = (case op of DELETE \<Rightarrow> None | _ \<Rightarrow> NEW),
                   al_changed_fields =
                     (case op of
                        UPDATE \<Rightarrow> Some (case NEW of None \<Rightarrow> [] | Some n \<Rightarrow>
                           (case OLD of None \<Rightarrow> [] | Some p \<Rightarrow> changed_fields n p))
                      | _ \<Rightarrow> None),
                   al_user_id = fst (current_user_info sess),
                   al_user_email = snd (current_user_info sess),
                   al_ip_address = (case app_client_ip sess of Text_of a \<Rightarrow> Some a | _ \<Rightarrow> None),
                   al_user_agent = app_user_agent sess,
                   al_created_at = Some now \<rparr>"
  have "tracked_statement sess now tbl op OLD NEW change s
          = Inr ((change s)\<lparr> audit_logs := audit_logs (change s) @ [?entry],
                            next_uuid := Suc (next_uuid (change s)) \<rparr>)"
    using assms unfolding tracked_statement_result audit_admitted_def
    by (cases "app_client_ip sess") simp_all
  then show ?thesis
    by (intro exI [of _ ?entry] conjI) simp_all
qed

lemma tracked_statement_not_admitted:
  assumes "\<not> audit_admitted sess (change s)"
  shows "\<exists>e. tracked_statement sess now tbl op OLD NEW change s = Inl e"
  using assms unfolding tracked_statement_result audit_admitted_def
  by (cases "app_client_ip sess") (auto split: option.splits)

lemma tracked_statement_keeps:
  assumes "tracked_statement sess now tbl op OLD NEW change s = Inr s'"
  shows "route_responsibility s' = route_responsibility (change s)
         \<and> next_uuid s' = Suc (next_uuid (change s))"
  using assms unfolding tracked_statement_result
  by (cases "app_client_ip sess") (auto split: option.splits if_splits)

lemma returning_id_Inr:
  "returning_id i result = Inr (j, s') \<longleftrightarrow> j = i \<and> result = Inr s'"
  by (cases result) (auto simp: returning_id_def)

lemma record_id_of_responsibility:
  "record_id_of ''route_responsibility'' OLD (Some (route_responsibility_jsonb rr))
     = Some (show_nat (rr_id rr))"
  by (simp add: record_id_of_def named_tables_def row_text_def route_responsibility_jsonb_def
        COALESCE_def)

lemma assign_existing:
  assumes ok: "responsibility_integrity s"
    and audit: "audit_admitted sess s"
    and old: "old \<in> set (route_responsibility s)"
    and by_user: "references a (map u_id (users s))"
  shows "\<exists>entry.
           assign_route_responsibility sess now (Some (rr_route_id old)) (Some (rr_user_id old))
             (Some (rr_role old)) a s
           = Inr (rr_id old,
               s\<lparr> route_responsibility :=
                    map (\<lambda>rr. if rr = old
                              then old\<lparr> rr_is_active := Some True, rr_assigned_at := Some now,
                                       rr_assigned_by := a \<rparr>
                              else rr)
                        (route_responsibility s),
                  audit_logs := audit_logs s @ [entry],
                  next_uuid := Suc (next_uuid s) \<rparr>)
           \<and> al_table_name entry = ''route_responsibility''
           \<and> al_operation entry = ''UPDATE''
           \<and> al_record_id entry = show_nat (rr_id old)
           \<and> al_user_id entry = fst (current_user_info sess)"
proof -
  let ?upd = "\<lambda>rr. if same_grant (rr_route_id old) (rr_user_id old) (rr_role old) rr
                    then reactivated now a rr else rr"
  let ?change = "\<lambda>s. s\<lparr> route_responsibility := map ?upd (route_responsibility s) \<rparr>"
  from ok have keys: "distinct (map grant_key (route_responsibility s))"
    and roles: "rr_role old = ''Primary'' \<or> rr_role old = ''Backup'' \<or> rr_role old = ''Observer''"
    using old by (auto simp: responsibility_integrity_def)
  from audit have manages: "manages_route_responsibility sess"
    by (simp add: audit_admitted_def manages_route_responsibility_def)
  have same: "same_grant (rr_route_id old) (rr_user_id old) (rr_role old) = (\<lambda>rr. grant_key rr = grant_key old)"
    by (auto simp: same_grant_def grant_key_def)
  have found: "find (same_grant (rr_route_id old) (rr_user_id old) (rr_role old)) (route_responsibility s) = Some old"
    unfolding same by (rule find_key_unique [OF keys old])
  have upd: "map ?upd (route_responsibility s)
           = map (\<lambda>rr. if rr = old
                       then old\<lparr> rr_is_active := Some True, rr_assigned_at := Some now, rr_assigned_by := a \<rparr>
                       else rr) (route_responsibility s)"
  proof (rule map_cong [OF refl])
    fix rr assume rr: "rr \<in> set (route_responsibility s)"
    have "grant_key rr = grant_key old \<longleftrightarrow> rr = old"
      using keys rr old by (auto simp: distinct_map inj_on_def)
    then show "?upd rr
             = (if rr = old
                then old\<lparr> rr_is_active := Some True, rr_assigned_at := Some now, rr_assigned_by := a \<rparr>
                else rr)"
      unfolding same by (simp add: reactivated_def)
  qed
  have call: "assign_route_responsibility sess now (Some (rr_route_id old)) (Some (rr_user_id old))
             (Some (rr_role old)) a s
        = returning_id (rr_id old)
            (tracked_statement sess now ''route_responsibility'' UPDATE
               (Some (route_responsibility_jsonb old))
               (Some (route_responsibility_jsonb (reactivated now a old)))
               ?change s)"
    using roles by_user manages
    unfolding assign_route_responsibility_def
    by (simp only: option.case found) auto
  have admitted: "audit_admitted sess (?change s)"
    using audit by (simp add: audit_admitted_def)
  have rid: "record_id_of ''route_responsibility'' (Some (route_responsibility_jsonb old))
               (Some (route_responsibility_jsonb (reactivated now a old))) = Some (show_nat (rr_id old))"
    by (simp add: record_id_of_responsibility reactivated_def)
  from tracked_statement_admitted
         [where change = ?change and s = s and now = now and op = UPDATE, OF admitted rid]
  obtain entry where
    run: "tracked_statement sess now ''route_responsibility'' UPDATE
               (Some (route_responsibility_jsonb old))
               (Some (route_responsibility_jsonb (reactivated now a old))) ?change s
          = Inr ((?change s)\<lparr> audit_logs := audit_logs (?change s) @ [entry],
                              next_uuid := Suc (next_uuid (?change s)) \<rparr>)"
    and entry: "al_table_name entry = ''route_responsibility''" "al_operation entry = ''UPDATE''"
      "al_record_id entry = show_nat (rr_id old)" "al_user_id entry = fst (current_user_info sess)"
    by auto
  have "assign_route_responsibility sess now (Some (rr_route_id old)) (Some (rr_user_id old))
             (Some (rr_role old)) a s
           = Inr (rr_id old,
               s\<lparr> route_responsibility :=
                    map (\<lambda>rr. if rr = old
                              then old\<lparr> rr_is_active := Some True, rr_assigned_at := Some now,
                                       rr_assigned_by := a \<rparr>
                              else rr)
                        (route_responsibility s),
                  audit_logs := audit_logs s @ [entry],
                  next_uuid := Suc (next_uuid s) \<rparr>)"
    unfolding call run by (simp add: returning_id_def upd)
  with entry show ?thesis
    by (intro exI [of _ entry] conjI)
qed

lemma assign_result:
  assumes "assign_route_responsibility sess now r u l a s = Inr (i, s')"
  shows "\<exists>route usr role.
           (role = ''Primary'' \<or> role = ''Backup'' \<or> role = ''Observer'')
           \<and> next_uuid s < next_uuid s'
           \<and> (find (same_grant route usr role) (route_responsibility s) \<noteq> None
                 \<and> route_responsibility s' =
                       map (\<lambda>rr. if same_grant route usr role rr then reactivated now a rr else rr)
                           (route_responsibility s)
               \<or> find (same_grant route usr role) (route_responsibility s) = None
                 \<and> route_responsibility s' = route_responsibility s @
                       [\<lparr> rr_id = next_uuid s, rr_route_id = route, rr_user_id = usr, rr_role = role,
                          rr_assigned_at = Some now, rr_assigned_by = a,
                          rr_is_active = Some True, rr_created_at = Some now \<rparr>])"
proof -
  from assms obtain route usr role where p: "r = Some route" "u = Some usr" "l = Some role"
    and role: "role = ''Primary'' \<or> role = ''Backup'' \<or> role = ''Observer''"
    and manages: "manages_route_responsibility sess"
    by (auto simp: assign_route_responsibility_def split: option.splits if_splits)
  show ?thesis
  proof (cases "find (same_grant route usr role) (route_responsibility s)")
    case (Some existing)
    let ?change = "\<lambda>s. s\<lparr> route_responsibility :=
                      map (\<lambda>rr. if same_grant route usr role rr then reactivated now a rr else rr)
                          (route_responsibility s) \<rparr>"
    from assms p role manages Some have
      "returning_id (rr_id existing)
         (tracked_statement sess now ''route_responsibility'' UPDATE
            (Some (route_responsibility_jsonb existing))
            (Some (route_responsibility_jsonb (reactivated now a existing))) ?change s) = Inr (i, s')"
      by (auto simp: assign_route_responsibility_def split: if_splits)
    then have "tracked_statement sess now ''route_responsibility'' UPDATE
            (Some (route_responsibility_jsonb existing))
            (Some (route_responsibility_jsonb (reactivated now a existing))) ?change s = Inr s'"
      by (simp add: returning_id_Inr)
    from tracked_statement_keeps [OF this] Some role show ?thesis
      by (intro exI [of _ route] exI [of _ usr] exI [of _ role]) simp
  next
    case None
    let ?row = "\<lparr> rr_id = next_uuid s, rr_route_id = route, rr_user_id = usr, rr_role = role,
                  rr_assigned_at = Some now, rr_assigned_by = a,
                  rr_is_active = Some True, rr_created_at = Some now \<rparr>"
    let ?change = "\<lambda>s. s\<lparr> route_responsibility := route_responsibility s @ [?row],
                            next_uuid := Suc (next_uuid s) \<rparr>"
    from assms p role manages None have
      "returning_id (next_uuid s)
         (tracked_statement sess now ''route_responsibility'' INSERT None
            (Some (route_responsibility_jsonb ?row)) ?change s) = Inr (i, s')"
      by (auto simp: assign_route_responsibility_def Let_def split: if_splits)
    then have "tracked_statement sess now ''route_responsibility'' INSERT None
            (Some (route_responsibility_jsonb ?row)) ?change s = Inr s'"
      by (simp add: returning_id_Inr)
    from tracked_statement_keeps [OF this] None role show ?thesis
      by (intro exI [of _ route] exI [of _ usr] exI [of _ role]) simp
  qed
qed

lemma assign_keeps_integrity:
  assumes ok: "responsibility_integrity s"
    and res: "assign_route_responsibility sess now r u l a s = Inr (i, s')"
  shows "responsibility_integrity s'"
proof -
  from assign_result [OF res] obtain route usr role where
    role: "role = ''Primary'' \<or> role = ''Backup'' \<or> role = ''Observer''"
    and next_id: "next_uuid s < next_uuid s'"
    and rows: "find (same_grant route usr role) (route_responsibility s) \<noteq> None
                 \<and> route_responsibility s' =
                       map (\<lambda>rr. if same_grant route usr role rr then reactivated now a rr else rr)
                           (route_responsibility s)
               \<or> find (same_grant route usr role) (route_responsibility s) = None
                 \<and> route_responsibility s' = route_responsibility s @
                       [\<lparr> rr_id = next_uuid s, rr_route_id = route, rr_user_id = usr, rr_role = role,
                          rr_assigned_at = Some now, rr_assigned_by = a,
                          rr_is_active = Some True, rr_created_at = Some now \<rparr>]"
    by blast
  from rows show ?thesis
  proof (elim disjE conjE)
    assume s': "route_responsibility s' =
                  map (\<lambda>rr. if same_grant route usr role rr then reactivated now a rr else rr)
                      (route_responsibility s)"
    have k: "grant_key (if same_grant route usr role rr then reactivated now a rr else rr) = grant_key rr"
      "rr_id (if same_grant route usr role rr then reactivated now a rr else rr) = rr_id rr"
      "rr_role (if same_grant route usr role rr then reactivated now a rr else rr) = rr_role rr" for rr
      by (simp_all add: grant_key_def reactivated_def)
    have r: "rr_id (reactivated now a rr) = rr_id rr" "rr_role (reactivated now a rr) = rr_role rr" for rr
      by (simp_all add: reactivated_def)
    from ok next_id show ?thesis
      unfolding s' responsibility_integrity_def
      by (auto simp: o_def k r)
  next
    assume none: "find (same_grant route usr role) (route_responsibility s) = None"
      and s': "route_responsibility s' = route_responsibility s @
                       [\<lparr> rr_id = next_uuid s, rr_route_id = route, rr_user_id = usr, rr_role = role,
                          rr_assigned_at = Some now, rr_assigned_by = a,
                          rr_is_active = Some True, rr_created_at = Some now \<rparr>]"
    from none have fresh: "(route, usr, role) \<notin> set (map grant_key (route_responsibility s))"
      by (auto simp: find_None_iff same_grant_def grant_key_def)
    from ok have ids: "next_uuid s \<notin> set (map rr_id (route_responsibility s))"
      by (auto simp: responsibility_integrity_def)
    from ok fresh ids role next_id show ?thesis
      unfolding s' responsibility_integrity_def
      by (auto simp: grant_key_def)
  qed
qed

text \<open>
  A call succeeds only in a session whose audit record can be written: for the roles
  \<^verbatim>\<open>authenticated\<close> and \<^verbatim>\<open>anon\<close>, which do not bypass the row level security of
  \<^verbatim>\<open>audit_logs\<close>, every call fails, whether the grant exists or not.
\<close>

lemma assign_needs_audit:
  assumes "assign_route_responsibility sess now r u l a s = Inr (i, s')"
  shows "audit_admitted sess s"
proof (rule ccontr)
  assume no: "\<not> audit_admitted sess s"
  have fails: "returning_id j (tracked_statement sess now tbl op OLD NEW change s) \<noteq> Inr (i, s')"
    if "users (change s) = users s" for j tbl op OLD NEW change
  proof -
    from no that have "\<not> audit_admitted sess (change s)"
      by (simp add: audit_admitted_def)
    from tracked_statement_not_admitted [where change = change and s = s, OF this] obtain e where
      "tracked_statement sess now tbl op OLD NEW change s = Inl e"
      by blast
    then show ?thesis by (simp add: returning_id_def)
  qed
  from assms show False
    unfolding assign_route_responsibility_def Let_def
    by (auto split: option.splits if_splits simp: fails)
qed

lemma assign_authenticated_fails:
  "assign_route_responsibility authenticated_session example_now (Some 30) (Some 2) (Some ''Backup'')
     (Some 1) responsibility_db = Inl Insufficient_privilege"
  by (simp add: assign_route_responsibility_def manages_route_responsibility_def
        authenticated_session_def responsibility_db_def example_defs same_grant_def references_def
        returning_id_def tracked_statement_result)

text \<open>
  Claim C10. Let the table satisfy its constraints, and let the call run in a session
  whose audit record can be written. A call of \<^verbatim>\<open>assign_route_responsibility\<close> for the
  route, user and role of an existing grant, with \<^verbatim>\<open>p_assigned_by\<close> null or a user,
  succeeds and returns the \<^verbatim>\<open>id\<close> of that grant; the table keeps its rows, the grant
  alone is changed and has \<^verbatim>\<open>is_active\<close> true, \<^verbatim>\<open>assigned_at\<close> the time of the call and
  \<^verbatim>\<open>assigned_by\<close> the parameter; the trigger of the table adds one audit record, of the
  update of that grant. Every call that succeeds keeps the constraints: no two rows have
  the same route, user and role.
\<close>

theorem assign_route_responsibility_upsert:
  assumes "responsibility_integrity s" and "audit_admitted sess s"
  shows "(\<forall>old \<in> set (route_responsibility s).
            references a (map u_id (users s)) \<longrightarrow>
            (\<exists>s'. assign_route_responsibility sess now (Some (rr_route_id old)) (Some (rr_user_id old))
                     (Some (rr_role old)) a s = Inr (rr_id old, s')
                 \<and> route_responsibility s' =
                     map (\<lambda>rr. if rr = old
                               then old\<lparr> rr_is_active := Some True, rr_assigned_at := Some now,
                                        rr_assigned_by := a \<rparr>
                               else rr)
                         (route_responsibility s)
                 \<and> length (route_responsibility s') = length (route_responsibility s)
                 \<and> (\<exists>entry. audit_logs s' = audit_logs s @ [entry]
                        \<and> al_table_name entry = ''route_responsibility''
                        \<and> al_operation entry = ''UPDATE''
                        \<and> al_record_id entry = show_nat (rr_id old))))
         \<and> (\<forall>r u l i s'. assign_route_responsibility sess now r u l a s = Inr (i, s') \<longrightarrow>
               responsibility_integrity s' \<and> distinct (map grant_key (route_responsibility s')))"
proof (intro conjI ballI impI allI)
  fix old
  assume old: "old \<in> set (route_responsibility s)" and a: "references a (map u_id (users s))"
  from assign_existing [OF assms old a, of now] obtain entry where
    call: "assign_route_responsibility sess now (Some (rr_route_id old)) (Some (rr_user_id old))
             (Some (rr_role old)) a s
           = Inr (rr_id old,
               s\<lparr> route_responsibility :=
                    map (\<lambda>rr. if rr = old
                              then old\<lparr> rr_is_active := Some True, rr_assigned_at := Some now,
                                       rr_assigned_by := a \<rparr>
                              else rr)
                        (route_responsibility s),
                  audit_logs := audit_logs s @ [entry],
                  next_uuid := Suc (next_uuid s) \<rparr>)"
    and entry: "al_table_name entry = ''route_responsibility''" "al_operation entry = ''UPDATE''"
      "al_record_id entry = show_nat (rr_id old)"
    by blast
  let ?s' = "s\<lparr> route_responsibility :=
                    map (\<lambda>rr. if rr = old
                              then old\<lparr> rr_is_active := Some True, rr_assigned_at := Some now,
                                       rr_assigned_by := a \<rparr>
                              else rr)
                        (route_responsibility s),
                  audit_logs := audit_logs s @ [entry],
                  next_uuid := Suc (next_uuid s) \<rparr>"
  have rows: "route_responsibility ?s' =
                     map (\<lambda>rr. if rr = old
                               then old\<lparr> rr_is_active := Some True, rr_assigned_at := Some now,
                                        rr_assigned_by := a \<rparr>
                               else rr)
                         (route_responsibility s)"
    and len: "length (route_responsibility ?s') = length (route_responsibility s)"
    by simp_all
  have logs: "\<exists>entry. audit_logs ?s' = audit_logs s @ [entry]
                        \<and> al_table_name entry = ''route_responsibility''
                        \<and> al_operation entry = ''UPDATE''
                        \<and> al_record_id entry = show_nat (rr_id old)"
    using entry by (intro exI [of _ entry] conjI) simp_all
  show "\<exists>s'. assign_route_responsibility sess now (Some (rr_route_id old)) (Some (rr_user_id old))
                     (Some (rr_role old)) a s = Inr (rr_id old, s')
                 \<and> route_responsibility s' =
                     map (\<lambda>rr. if rr = old
                               then old\<lparr> rr_is_active := Some True, rr_assigned_at := Some now,
                                        rr_assigned_by := a \<rparr>
                               else rr)
                         (route_responsibility s)
                 \<and> length (route_responsibility s') = length (route_responsibility s)
                 \<and> (\<exists>entry. audit_logs s' = audit_logs s @ [entry]
                        \<and> al_table_name entry = ''route_responsibility''
                        \<and> al_operation entry = ''UPDATE''
                        \<and> al_record_id entry = show_nat (rr_id old))"
    by (rule exI [of _ ?s'], intro conjI call rows len logs)
next
  fix r u l i s'
  assume "assign_route_responsibility sess now r u l a s = Inr (i, s')"
  with assms(1) show "responsibility_integrity s'"
    by (rule assign_keeps_integrity)
  then show "distinct (map grant_key (route_responsibility s'))"
    by (simp add: responsibility_integrity_def)
qed

theorem assign_route_responsibility_upsert_witness:
  "responsibility_integrity responsibility_db
   \<and> audit_admitted service_session responsibility_db
   \<and> (\<exists>s'. assign_route_responsibility service_session example_now (Some 30) (Some 2)
               (Some ''Backup'') (Some 1) responsibility_db = Inr (300, s')
          \<and> map rr_id (route_responsibility s') = [300, 301]
          \<and> map rr_is_active (route_responsibility s') = [Some True, Some True]
          \<and> map rr_assigned_at (route_responsibility s') = [Some example_now, Some 1000]
          \<and> map rr_assigned_by (route_responsibility s') = [Some 1, None]
          \<and> map al_operation (audit_logs s') = [''UPDATE'']
          \<and> map al_record_id (audit_logs s') = [''300'']
          \<and> responsibility_integrity s')"
proof -
  define old where "old = route_responsibility responsibility_db ! 0"
  note defs = old_def responsibility_db_def example_defs
  have ok: "responsibility_integrity responsibility_db"
    by (simp add: responsibility_integrity_def grant_key_def responsibility_db_def example_defs)
  have audit: "audit_admitted service_session responsibility_db"
    by (simp add: audit_admitted_def service_session_def authenticated_session_def
          current_user_info_def references_def responsibility_db_def example_defs)
  have old: "old \<in> set (route_responsibility responsibility_db)"
    and a: "references (Some 1) (map u_id (users responsibility_db))"
    and f: "rr_route_id old = 30" "rr_user_id old = 2" "rr_role old = ''Backup''" "rr_id old = 300"
    by (simp_all add: defs references_def)
  have digits: "show_nat 300 = ''300''"
    by (simp add: show_nat.simps digit_def)
  note inst = assign_route_responsibility_upsert [OF ok audit, of "Some 1" example_now]
  from inst old a obtain s' entry where
    s': "assign_route_responsibility service_session example_now (Some (rr_route_id old))
           (Some (rr_user_id old)) (Some (rr_role old)) (Some 1) responsibility_db = Inr (rr_id old, s')"
      "route_responsibility s' =
         map (\<lambda>rr. if rr = old
                   then old\<lparr> rr_is_active := Some True, rr_assigned_at := Some example_now,
                            rr_assigned_by := Some 1 \<rparr>
                   else rr)
             (route_responsibility responsibility_db)"
    and entry: "audit_logs s' = audit_logs responsibility_db @ [entry]"
      "al_operation entry = ''UPDATE''" "al_record_id entry = show_nat (rr_id old)"
    by blast
  from inst s'(1) have ok': "responsibility_integrity s'"
    by blast
  have rows: "map rr_id (route_responsibility s') = [300, 301]"
    "map rr_is_active (route_responsibility s') = [Some True, Some True]"
    "map rr_assigned_at (route_responsibility s') = [Some example_now, Some 1000]"
    "map rr_assigned_by (route_responsibility s') = [Some 1, None]"
    unfolding s'(2) by (simp_all add: defs)
  have logs: "map al_operation (audit_logs s') = [''UPDATE'']"
    "map al_record_id (audit_logs s') = [''300'']"
    unfolding entry(1) using entry(2,3) by (simp_all add: f digits responsibility_db_def example_defs)
  from s'(1) have call: "assign_route_responsibility service_session example_now (Some 30) (Some 2)
      (Some ''Backup'') (Some 1) responsibility_db = Inr (300, s')"
    by (simp only: f)
  show ?thesis
    by (rule conjI [OF ok], rule conjI [OF audit], rule exI [of _ s'], intro conjI call rows logs ok')
qed

section \<open>Properties of the suggestions\<close>

lemma default_settings_values:
  "minGapMinutes default_settings = 30" "maxGapMinutes default_settings = 240"
  "maxDistanceKm default_settings = 50" "distanceWeight default_settings = 4 / 10"
  "timeWeight default_settings = 6 / 10" "efficiencyThreshold default_settings = 7 / 10"
  "maxSuggestionsPerRoute default_settings = 5"
  by (simp_all add: default_settings_def settings_of_def config_value_def suggestion_config_def)

lemma efficiency_example: "efficiency default_settings 10 45 = 8075 / 10000"
  by (simp add: efficiency_def default_settings_values)

lemma pair_suggestion_shape:
  "pair_suggestion cfg l day a b = []
   \<or> (\<exists>d. pair_suggestion cfg l day a b =
         [\<lparr> sg_from_route_id = oc_route_id a, sg_to_route_id = oc_route_id b,
            sg_to_route_code = oc_route_code b, sg_suggestion_date = day,
            sg_gap_minutes = oc_departure b - oc_estimated_arrival a,
            sg_distance_km = d,
            sg_efficiency_score = efficiency cfg d (oc_departure b - oc_estimated_arrival a) \<rparr>])"
  by (cases "l (oc_route_id a, oc_route_id b)") (simp_all add: pair_suggestion_def Let_def)

lemma pair_suggestion_from:
  assumes "x \<in> set (pair_suggestion cfg l day a b)"
  shows "sg_from_route_id x = oc_route_id a"
  using pair_suggestion_shape [of cfg l day a b] assms by auto

text \<open>
  Claim C7. With the default rows of \<^verbatim>\<open>suggestion_config\<close>, for two occurrences of
  different routes on a date, the first ending at 14:00 and the second starting at 14:45,
  on routes 10 km apart: the efficiency is
  \<open>0.4 \<sqdot> (1 - 10/50) + 0.6 \<sqdot> (1 - 45/240) = 0.8075\<close>, above the threshold 0.7, and the
  engine emits the record of the pair, with gap 45 minutes and that efficiency.
\<close>

theorem suggestConsolidations_example:
  assumes routes: "oc_route_id a \<noteq> oc_route_id b"
    and arrival: "oc_estimated_arrival a = 14 * 60"
    and departure: "oc_departure b = 14 * 60 + 45"
    and distance: "distance_lookup (oc_route_id a, oc_route_id b) = Some 10"
  shows "efficiency default_settings 10 45 = 4 / 10 * (1 - 10 / 50) + 6 / 10 * (1 - 45 / 240)
       \<and> efficiency default_settings 10 45 = 8075 / 10000
       \<and> efficiencyThreshold default_settings < efficiency default_settings 10 45
       \<and> \<lparr> sg_from_route_id = oc_route_id a, sg_to_route_id = oc_route_id b,
            sg_to_route_code = oc_route_code b, sg_suggestion_date = day,
            sg_gap_minutes = 45, sg_distance_km = 10, sg_efficiency_score = 8075 / 10000 \<rparr>
          \<in> set (suggestConsolidations default_settings distance_lookup day [a, b])"
proof -
  let ?c = "\<lparr> sg_from_route_id = oc_route_id a, sg_to_route_id = oc_route_id b,
            sg_to_route_code = oc_route_code b, sg_suggestion_date = day,
            sg_gap_minutes = 45, sg_distance_km = 10, sg_efficiency_score = 8075 / 10000 \<rparr>"
  have gap: "oc_departure b - oc_estimated_arrival a = 45"
    by (simp add: arrival departure)
  have same: "pair_suggestion default_settings distance_lookup day x x = []" for x
    by (simp add: pair_suggestion_def)
  have ab: "pair_suggestion default_settings distance_lookup day a b = [?c]"
    by (simp add: pair_suggestion_def gap routes distance default_settings_values efficiency_example)
  define X where "X = pair_suggestion default_settings distance_lookup day b a"
  have cs: "candidates default_settings distance_lookup day [a, b] = ?c # X"
    by (simp add: candidates_def same ab X_def)
  have X: "\<forall>x \<in> set X. sg_from_route_id x = oc_route_id b"
    unfolding X_def by (blast dest: pair_suggestion_from)
  have from_a: "[c \<leftarrow> ?c # X. sg_from_route_id c = oc_route_id a] = [?c]"
    using X routes by (auto simp: filter_empty_conv)
  have "?c \<in> set (take (maxSuggestionsPerRoute default_settings)
                     (ranked [c \<leftarrow> ?c # X. sg_from_route_id c = oc_route_id a]))"
    unfolding from_a by (simp add: default_settings_values)
  then have emitted: "?c \<in> set (suggestConsolidations default_settings distance_lookup day [a, b])"
    unfolding suggestConsolidations_def Let_def cs by simp
  have formula: "efficiency default_settings 10 45 = 4 / 10 * (1 - 10 / 50) + 6 / 10 * (1 - 45 / 240)"
    by (simp add: efficiency_example)
  have above: "efficiencyThreshold default_settings < efficiency default_settings 10 45"
    by (simp add: efficiency_example default_settings_values)
  show ?thesis
    by (intro conjI formula efficiency_example above emitted)
qed

theorem suggestConsolidations_example_witness:
  "suggestConsolidations default_settings (\<lambda>p. if p = (30, 31) then Some 10 else None) 20280
     [\<lparr> oc_route_id = 30, oc_route_code = ''RTE000001'', oc_departure = 600,
        oc_estimated_arrival = 840 \<rparr>,
      \<lparr> oc_route_id = 31, oc_route_code = ''RTE000002'', oc_departure = 885,
        oc_estimated_arrival = 1000 \<rparr>]
   = [\<lparr> sg_from_route_id = 30, sg_to_route_id = 31, sg_to_route_code = ''RTE000002'',
        sg_suggestion_date = 20280, sg_gap_minutes = 45, sg_distance_km = 10,
        sg_efficiency_score = 8075 / 10000 \<rparr>]
   \<and> efficiency default_settings 10 45 = 8075 / 10000"
proof -
  let ?a = "\<lparr> oc_route_id = 30, oc_route_code = ''RTE000001'', oc_departure = 600,
        oc_estimated_arrival = 840 \<rparr>"
  let ?b = "\<lparr> oc_route_id = 31, oc_route_code = ''RTE000002'', oc_departure = 885,
        oc_estimated_arrival = 1000 \<rparr>"
  let ?lookup = "\<lambda>p. if p = (30 :: nat, 31 :: nat) then Some (10 :: rat) else None"
  have h: "oc_route_id ?a \<noteq> oc_route_id ?b" "oc_estimated_arrival ?a = 14 * 60"
    "oc_departure ?b = 14 * 60 + 45" "?lookup (oc_route_id ?a, oc_route_id ?b) = Some 10"
    by simp_all
  note inst = suggestConsolidations_example
    [where a = ?a and b = ?b and distance_lookup = ?lookup and day = 20280, OF h]
  have out: "suggestConsolidations default_settings ?lookup 20280 [?a, ?b]
      = [\<lparr> sg_from_route_id = 30, sg_to_route_id = 31, sg_to_route_code = ''RTE000002'',
           sg_suggestion_date = 20280, sg_gap_minutes = 45, sg_distance_km = 10,
           sg_efficiency_score = efficiency default_settings 10 45 \<rparr>]"
    by (simp add: suggestConsolidations_def candidates_def pair_suggestion_def Let_def
          default_settings_values efficiency_example)
  from inst have "efficiency default_settings 10 45 = 8075 / 10000" by blast
  with out show ?thesis by simp
qed

end
